theory Spec2Isabelle
  imports Main "HOL-Library.Word"
begin

unbundle bit_operations_syntax

section \<open>Machine types shared by the contract and the client codec\<close>

type_synonym byte = "8 word"
type_synonym uint256 = "256 word"
type_synonym address = "160 word"

text \<open>
  An encrypted value (\<open>eaddress\<close>, \<open>euint256\<close>, \<open>externalEuint256\<close>) is a
  \<open>bytes32\<close> handle on chain.
\<close>

type_synonym handle = "256 word"

text \<open>
  \<open>be_bytes n v\<close> is the big-endian rendering of \<open>v\<close> on exactly \<open>n\<close> bytes (the
  value taken modulo \<open>256 ^ n\<close>); \<open>be_nat\<close> reads a byte sequence back as a
  big-endian number.
\<close>

primrec be_bytes :: "nat \<Rightarrow> nat \<Rightarrow> byte list" where
  "be_bytes 0 v = []"
| "be_bytes (Suc n) v = be_bytes n (v div 256) @ [of_nat (v mod 256)]"

definition be_nat :: "byte list \<Rightarrow> nat" where
  "be_nat bs = foldl (\<lambda>acc b. acc * 256 + unat b) 0 bs"


section \<open>Keccak-256\<close>

text \<open>
  \<open>keccak256\<close> of Solidity and of ethers is Keccak with rate 1088 and capacity 512, the
  padding \<open>pad10*1\<close> after the suffix bit of the original submission (the byte \<open>0x01\<close>),
  and 256 bits of output. The state is 25 lanes of 64 bits, lane \<open>(x, y)\<close> at index
  \<open>x + 5 * y\<close>; bytes enter and leave the lanes in little-endian order.
\<close>

type_synonym lane = "64 word"

definition keccak_RC :: "lane list" where
  "keccak_RC =
    [0x0000000000000001, 0x0000000000008082, 0x800000000000808A, 0x8000000080008000,
     0x000000000000808B, 0x0000000080000001, 0x8000000080008081, 0x8000000000008009,
     0x000000000000008A, 0x0000000000000088, 0x0000000080008009, 0x000000008000000A,
     0x000000008000808B, 0x800000000000008B, 0x8000000000008089, 0x8000000000008003,
     0x8000000000008002, 0x8000000000000080, 0x000000000000800A, 0x800000008000000A,
     0x8000000080008081, 0x8000000000008080, 0x0000000080000001, 0x8000000080008008]"

definition keccak_rot :: "nat list" where
  "keccak_rot = [0, 1, 62, 28, 27, 36, 44, 6, 55, 20, 3, 10, 43, 25, 39, 41, 45, 15, 21, 8,
                 18, 2, 61, 56, 14]"

text \<open>Rotation to the left: \<open>(w << n) | (w >> (64 - n))\<close>.\<close>

definition rol64 :: "lane \<Rightarrow> nat \<Rightarrow> lane" where
  "rol64 w n = push_bit n w OR drop_bit (64 - n) w"

text \<open>The five steps of a round.\<close>

definition theta_C :: "lane list \<Rightarrow> lane list" where
  "theta_C A = map (\<lambda>x. A ! x XOR A ! (x + 5) XOR A ! (x + 10) XOR A ! (x + 15) XOR A ! (x + 20))
                 [0..<5]"

definition theta_D :: "lane list \<Rightarrow> lane list" where
  "theta_D C = map (\<lambda>x. C ! ((x + 4) mod 5) XOR rol64 (C ! ((x + 1) mod 5)) 1) [0..<5]"

definition theta_xor :: "lane list \<Rightarrow> lane list \<Rightarrow> lane list" where
  "theta_xor A D = map (\<lambda>i. A ! i XOR D ! (i mod 5)) [0..<25]"

definition theta :: "lane list \<Rightarrow> lane list" where
  "theta A = theta_xor A (theta_D (theta_C A))"

definition rho_pi :: "lane list \<Rightarrow> lane list" where
  "rho_pi A =
     map (\<lambda>j. rol64 (A ! ((j mod 5 + 3 * (j div 5)) mod 5 + 5 * (j mod 5)))
                 (keccak_rot ! ((j mod 5 + 3 * (j div 5)) mod 5 + 5 * (j mod 5)))) [0..<25]"

definition chi :: "lane list \<Rightarrow> lane list" where
  "chi B =
     map (\<lambda>i. B ! i XOR (NOT (B ! ((i mod 5 + 1) mod 5 + 5 * (i div 5)))
                          AND B ! ((i mod 5 + 2) mod 5 + 5 * (i div 5)))) [0..<25]"

definition iota :: "lane \<Rightarrow> lane list \<Rightarrow> lane list" where
  "iota rc A = A[0 := A ! 0 XOR rc]"

definition keccak_round :: "lane list \<Rightarrow> lane \<Rightarrow> lane list" where
  "keccak_round A rc = iota rc (chi (rho_pi (theta A)))"

definition keccak_f1600 :: "lane list \<Rightarrow> lane list" where
  "keccak_f1600 A = foldl keccak_round A keccak_RC"

text \<open>Padding to a multiple of the rate, 136 bytes.\<close>

definition keccak_pad :: "byte list \<Rightarrow> byte list" where
  "keccak_pad m =
     (let q = 136 - length m mod 136
      in if q = 1 then m @ [0x81] else m @ [0x01] @ replicate (q - 2) 0 @ [0x80])"

text \<open>Lanes from and to bytes.\<close>

definition le_lane :: "byte list \<Rightarrow> lane" where
  "le_lane bs = foldr (\<lambda>b acc. push_bit 8 acc OR ucast b) bs 0"

definition lane_bytes :: "lane \<Rightarrow> byte list" where
  "lane_bytes w = map (\<lambda>i. ucast (drop_bit (8 * i) w)) [0..<8]"

definition block_lanes :: "byte list \<Rightarrow> lane list" where
  "block_lanes blk = map (\<lambda>i. le_lane (take 8 (drop (8 * i) blk))) [0..<17] @ replicate 8 0"

text \<open>Absorbing the padded message block by block, and the first 32 bytes of the state.\<close>

fun absorb :: "lane list \<Rightarrow> byte list \<Rightarrow> lane list" where
  "absorb A p =
     (if length p < 136 then A
      else absorb (keccak_f1600 (map2 (XOR) A (block_lanes (take 136 p)))) (drop 136 p))"

declare absorb.simps [simp del]

definition keccak256_bytes :: "byte list \<Rightarrow> byte list" where
  "keccak256_bytes m = concat (map lane_bytes (take 4 (absorb (replicate 25 0) (keccak_pad m))))"

text \<open>The digest as a 256-bit number, its first byte the most significant.\<close>

definition keccak256 :: "byte list \<Rightarrow> uint256" where
  "keccak256 m = of_nat (be_nat (keccak256_bytes m))"

section \<open>The group registry: contracts/ZVerseGroups.sol\<close>

subsection \<open>Storage\<close>

record Group =
  name :: string
  encryptedKey :: handle
  creator :: address
  members :: "address list"
  isMember :: "address \<Rightarrow> bool"

record Message =
  sender :: address
  encryptedContent :: handle
  timestamp :: uint256

datatype event =
  GroupCreated uint256 string address handle
| GroupJoined uint256 address
| MessageSent uint256 address handle

text \<open>
  The contract's storage is \<open>_groups\<close> and \<open>_groupMessages\<close>. The permission table
  of the encryption library and the event log are written by the contract's
  transactions and are reverted with them, so they are part of the state.
\<close>

record registry =
  groups :: "Group list"
  groupMessages :: "uint256 \<Rightarrow> Message list"
  acl :: "(handle \<times> address) set"
  events :: "event list"

definition init_registry :: registry where
  "init_registry = \<lparr> groups = [], groupMessages = (\<lambda>_. []), acl = {}, events = [] \<rparr>"

text \<open>What a transaction sees of its environment.\<close>

record tx_env =
  msg_sender :: address
  block_timestamp :: uint256
  block_prevrandao :: uint256
  this :: address

datatype revert =
  InvalidGroup
| NameRequired
| AlreadyMember
| NotMember
| InputRejected
| IndexOutOfBounds

subsection \<open>The encryption library (\<open>@fhevm/solidity/lib/FHE.sol\<close>, not part of the sources)\<close>

text \<open>
  The two operations that produce handles are parameters of the model: \<open>asEaddress\<close>
  encrypts a plain address, \<open>fromExternal\<close> imports a ciphertext supplied by the
  sender with its proof and may reject it.
\<close>

record fhevm =
  asEaddress :: "address \<Rightarrow> handle"
  fromExternal :: "address \<Rightarrow> handle \<Rightarrow> byte list \<Rightarrow> handle option"

text \<open>
  Modelled from the spec: the library's permission operations, which the spec gives as
  \<open>grant(handle, principal)\<close> (granting twice is a no-op, never an error) and
  \<open>isGranted(handle, principal)\<close>, with no revoke.
\<close>

definition FHE_allow :: "handle \<Rightarrow> address \<Rightarrow> registry \<Rightarrow> registry" where
  "FHE_allow h a s = s\<lparr> acl := insert (h, a) (acl s) \<rparr>"

definition FHE_allowThis :: "tx_env \<Rightarrow> handle \<Rightarrow> registry \<Rightarrow> registry" where
  "FHE_allowThis e h s = FHE_allow h (this e) s"

definition FHE_isAllowed :: "handle \<Rightarrow> address \<Rightarrow> registry \<Rightarrow> bool" where
  "FHE_isAllowed h a s = ((h, a) \<in> acl s)"

subsection \<open>Transactions\<close>

definition validGroup :: "uint256 \<Rightarrow> registry \<Rightarrow> bool" where
  "validGroup groupId s = (unat groupId < length (groups s))"

text \<open>\<open>abi.encodePacked(block.prevrandao, block.timestamp, msg.sender, groupId)\<close>\<close>

definition encodePacked :: "tx_env \<Rightarrow> uint256 \<Rightarrow> byte list" where
  "encodePacked e groupId =
     be_bytes 32 (unat (block_prevrandao e)) @ be_bytes 32 (unat (block_timestamp e))
       @ be_bytes 20 (unat (msg_sender e)) @ be_bytes 32 (unat groupId)"

definition createGroup :: "fhevm \<Rightarrow> tx_env \<Rightarrow> string \<Rightarrow> registry \<Rightarrow> revert + (uint256 \<times> registry)" where
  "createGroup fhe e nm s =
     (if \<not> length nm > 0 then Inl NameRequired
      else
        let groupId = (of_nat (length (groups s)) :: uint256);
            groupAddress = (ucast (keccak256 (encodePacked e groupId)) :: address);
            encKey = asEaddress fhe groupAddress;
            group = \<lparr> name = nm, encryptedKey = encKey, creator = msg_sender e,
                      members = [msg_sender e], isMember = (\<lambda>a. a = msg_sender e) \<rparr>;
            s1 = s\<lparr> groups := groups s @ [group] \<rparr>;
            s2 = FHE_allowThis e encKey s1;
            s3 = FHE_allow encKey (msg_sender e) s2;
            s4 = s3\<lparr> events := events s3 @ [GroupCreated groupId nm (msg_sender e) encKey] \<rparr>
        in Inr (groupId, s4))"

text \<open>
  The loop of \<open>joinGroup\<close>:
  \<open>for (i = 0; i < messages.length; i++) FHE.allow(messages[i].encryptedContent, msg.sender)\<close>.
\<close>

primrec allowMessages :: "Message list \<Rightarrow> address \<Rightarrow> registry \<Rightarrow> registry" where
  "allowMessages [] a s = s"
| "allowMessages (m # ms) a s = allowMessages ms a (FHE_allow (encryptedContent m) a s)"

definition joinGroup :: "tx_env \<Rightarrow> uint256 \<Rightarrow> registry \<Rightarrow> revert + registry" where
  "joinGroup e groupId s =
     (if \<not> validGroup groupId s then Inl InvalidGroup
      else
        let group = groups s ! unat groupId in
        if isMember group (msg_sender e) then Inl AlreadyMember
        else
          let group1 = group\<lparr> isMember := (isMember group)(msg_sender e := True) \<rparr>;
              group2 = group1\<lparr> members := members group1 @ [msg_sender e] \<rparr>;
              s1 = s\<lparr> groups := (groups s)[unat groupId := group2] \<rparr>;
              s2 = FHE_allow (encryptedKey group2) (msg_sender e) s1;
              s3 = allowMessages (groupMessages s2 groupId) (msg_sender e) s2
          in Inr (s3\<lparr> events := events s3 @ [GroupJoined groupId (msg_sender e)] \<rparr>))"

text \<open>
  The loop of \<open>sendMessage\<close>:
  \<open>for (i = 0; i < members.length; i++) FHE.allow(storedMessage, members[i])\<close>.
\<close>

primrec allowMembers :: "handle \<Rightarrow> address list \<Rightarrow> registry \<Rightarrow> registry" where
  "allowMembers h [] s = s"
| "allowMembers h (a # as) s = allowMembers h as (FHE_allow h a s)"

definition sendMessage ::
  "fhevm \<Rightarrow> tx_env \<Rightarrow> uint256 \<Rightarrow> handle \<Rightarrow> byte list \<Rightarrow> registry \<Rightarrow> revert + registry" where
  "sendMessage fhe e groupId encryptedMessage inputProof s =
     (if \<not> validGroup groupId s then Inl InvalidGroup
      else
        let group = groups s ! unat groupId in
        if \<not> isMember group (msg_sender e) then Inl NotMember
        else
          case fromExternal fhe (msg_sender e) encryptedMessage inputProof of
            None \<Rightarrow> Inl InputRejected
          | Some storedMessage \<Rightarrow>
              let s1 = FHE_allowThis e storedMessage s;
                  s2 = allowMembers storedMessage (members group) s1;
                  msg = \<lparr> sender = msg_sender e, encryptedContent = storedMessage,
                          timestamp = block_timestamp e \<rparr>;
                  s3 = s2\<lparr> groupMessages :=
                            (groupMessages s2)(groupId := groupMessages s2 groupId @ [msg]) \<rparr>
              in Inr (s3\<lparr> events := events s3 @ [MessageSent groupId (msg_sender e) storedMessage] \<rparr>))"

subsection \<open>Views\<close>

definition getGroupCount :: "registry \<Rightarrow> uint256" where
  "getGroupCount s = of_nat (length (groups s))"

definition getGroupMembers :: "uint256 \<Rightarrow> registry \<Rightarrow> revert + address list" where
  "getGroupMembers groupId s =
     (if \<not> validGroup groupId s then Inl InvalidGroup
      else Inr (members (groups s ! unat groupId)))"

definition isGroupMember :: "uint256 \<Rightarrow> address \<Rightarrow> registry \<Rightarrow> revert + bool" where
  "isGroupMember groupId account s =
     (if \<not> validGroup groupId s then Inl InvalidGroup
      else Inr (isMember (groups s ! unat groupId) account))"

definition getMessageCount :: "uint256 \<Rightarrow> registry \<Rightarrow> revert + uint256" where
  "getMessageCount groupId s =
     (if \<not> validGroup groupId s then Inl InvalidGroup
      else Inr (of_nat (length (groupMessages s groupId))))"

definition getMessage :: "uint256 \<Rightarrow> uint256 \<Rightarrow> registry \<Rightarrow> revert + Message" where
  "getMessage groupId index s =
     (if \<not> validGroup groupId s then Inl InvalidGroup
      else if \<not> unat index < length (groupMessages s groupId) then Inl IndexOutOfBounds
      else Inr (groupMessages s groupId ! unat index))"

definition canDecryptGroupKey :: "uint256 \<Rightarrow> address \<Rightarrow> registry \<Rightarrow> revert + bool" where
  "canDecryptGroupKey groupId account s =
     (if \<not> validGroup groupId s then Inl InvalidGroup
      else Inr (FHE_isAllowed (encryptedKey (groups s ! unat groupId)) account s))"

definition canDecryptMessage :: "uint256 \<Rightarrow> uint256 \<Rightarrow> address \<Rightarrow> registry \<Rightarrow> revert + bool" where
  "canDecryptMessage groupId index account s =
     (if \<not> validGroup groupId s then Inl InvalidGroup
      else if \<not> unat index < length (groupMessages s groupId) then Inl IndexOutOfBounds
      else Inr (FHE_isAllowed (encryptedContent (groupMessages s groupId ! unat index)) account s))"

subsection \<open>Sequences of transactions\<close>

text \<open>
  A transaction that reverts leaves the state as it was; one that succeeds commits its
  state.
\<close>

datatype call =
  CreateGroup string
| JoinGroup uint256
| SendMessage uint256 handle "byte list"

fun transact :: "fhevm \<Rightarrow> tx_env \<times> call \<Rightarrow> registry \<Rightarrow> registry" where
  "transact fhe (e, CreateGroup nm) s =
     (case createGroup fhe e nm s of Inl err \<Rightarrow> s | Inr (gid, s') \<Rightarrow> s')"
| "transact fhe (e, JoinGroup groupId) s =
     (case joinGroup e groupId s of Inl err \<Rightarrow> s | Inr s' \<Rightarrow> s')"
| "transact fhe (e, SendMessage groupId m p) s =
     (case sendMessage fhe e groupId m p s of Inl err \<Rightarrow> s | Inr s' \<Rightarrow> s')"

definition run :: "fhevm \<Rightarrow> (tx_env \<times> call) list \<Rightarrow> registry" where
  "run fhe calls = foldl (\<lambda>s c. transact fhe c s) init_registry calls"

text \<open>The invariant of one group.\<close>

definition group_ok :: "Group \<Rightarrow> bool" where
  "group_ok g =
     (members g \<noteq> [] \<and> creator g \<in> set (members g) \<and> distinct (members g)
      \<and> (\<forall>a. isMember g a = (a \<in> set (members g))))"

section \<open>The envelope codec: ui/src/utils/messages.ts\<close>

subsection \<open>Strings and errors of the JavaScript side\<close>

text \<open>
  A JavaScript string is a sequence of UTF-16 code units. \<open>js\<close> writes an ASCII
  literal as such a string.
\<close>

type_synonym jschar = "16 word"
type_synonym jsstring = "jschar list"

definition cu :: "char \<Rightarrow> jschar" where
  "cu c = of_char c"

definition js :: "string \<Rightarrow> jsstring" where
  "js s = map cu s"

text \<open>
  What the codec can throw: \<open>SyntaxError\<close> from \<open>BigInt(string)\<close>, the three ethers
  errors, \<open>RangeError\<close> from a typed array, and the codec's own "Message too long".
\<close>

datatype codec_error =
  SyntaxError
| INVALID_ARGUMENT
| NUMERIC_FAULT
| BUFFER_OVERRUN
| RangeError
| MessageTooLong

definition startsWith :: "jsstring \<Rightarrow> jsstring \<Rightarrow> bool" where
  "startsWith s p = (take (length p) s = p)"

subsection \<open>\<open>BigInt(string)\<close> (ECMAScript StringToBigInt)\<close>

text \<open>
  The string is trimmed of white space and line terminators; what is left is empty (the
  value 0), a decimal integer with an optional sign, or an unsigned literal with one of
  the prefixes \<open>0x\<close>, \<open>0o\<close>, \<open>0b\<close> (either case). Anything else is a \<open>SyntaxError\<close>.
\<close>

definition isStrWhiteSpaceChar :: "jschar \<Rightarrow> bool" where
  "isStrWhiteSpaceChar c =
     (c \<in> {0x9, 0xA, 0xB, 0xC, 0xD, 0x20, 0xA0, 0x1680, 0x2028, 0x2029, 0x202F, 0x205F,
            0x3000, 0xFEFF}
      \<or> (0x2000 \<le> c \<and> c \<le> 0x200A))"

definition trimString :: "jsstring \<Rightarrow> jsstring" where
  "trimString s = rev (dropWhile isStrWhiteSpaceChar (rev (dropWhile isStrWhiteSpaceChar s)))"

definition digitValue :: "jschar \<Rightarrow> nat option" where
  "digitValue c =
     (let v = unat c in
      if 48 \<le> v \<and> v \<le> 57 then Some (v - 48)
      else if 97 \<le> v \<and> v \<le> 102 then Some (v - 87)
      else if 65 \<le> v \<and> v \<le> 70 then Some (v - 55)
      else None)"

fun parseDigits :: "nat \<Rightarrow> nat \<Rightarrow> jsstring \<Rightarrow> nat option" where
  "parseDigits r acc [] = Some acc"
| "parseDigits r acc (c # cs) =
     (case digitValue c of
        None \<Rightarrow> None
      | Some d \<Rightarrow> if d < r then parseDigits r (acc * r + d) cs else None)"

definition parseInteger :: "nat \<Rightarrow> jsstring \<Rightarrow> nat option" where
  "parseInteger r s = (if s = [] then None else parseDigits r 0 s)"

definition unsignedLiteral :: "nat \<Rightarrow> jsstring \<Rightarrow> codec_error + int" where
  "unsignedLiteral r s =
     (case parseInteger r s of None \<Rightarrow> Inl SyntaxError | Some n \<Rightarrow> Inr (int n))"

definition BigInt_string :: "jsstring \<Rightarrow> codec_error + int" where
  "BigInt_string s =
     (let t = trimString s in
      if t = [] then Inr 0
      else if startsWith t (js ''0x'') \<or> startsWith t (js ''0X'') then unsignedLiteral 16 (drop 2 t)
      else if startsWith t (js ''0o'') \<or> startsWith t (js ''0O'') then unsignedLiteral 8 (drop 2 t)
      else if startsWith t (js ''0b'') \<or> startsWith t (js ''0B'') then unsignedLiteral 2 (drop 2 t)
      else if startsWith t (js ''+'') then unsignedLiteral 10 (drop 1 t)
      else if startsWith t (js ''-'') then
        (case unsignedLiteral 10 (drop 1 t) of Inl e \<Rightarrow> Inl e | Inr n \<Rightarrow> Inr (- n))
      else unsignedLiteral 10 t)"

subsection \<open>The ethers functions the codec calls\<close>

definition hexDigit :: "nat \<Rightarrow> jschar" where
  "hexDigit d = (if d < 10 then of_nat (48 + d) else of_nat (87 + d))"

text \<open>\<open>value.toString(16)\<close> of a non-negative bigint.\<close>

fun toString16 :: "nat \<Rightarrow> jsstring" where
  "toString16 n = (if n < 16 then [hexDigit n] else toString16 (n div 16) @ [hexDigit (n mod 16)])"

declare toString16.simps [simp del]

text \<open>
  \<open>toBeHex(value)\<close>: a negative value is a numeric fault; the hexadecimal digits get a
  leading zero when their number is odd.
\<close>

definition toBeHex :: "int \<Rightarrow> codec_error + jsstring" where
  "toBeHex v =
     (if v < 0 then Inl NUMERIC_FAULT
      else
        let result = toString16 (nat v);
            result = (if odd (length result) then cu CHR ''0'' # result else result)
        in Inr (js ''0x'' @ result))"

text \<open>
  \<open>toBeHex(value, width)\<close>: the digits are padded to \<open>width\<close> bytes; a value that
  exceeds the width is a numeric fault.
\<close>

definition toBeHex_width :: "int \<Rightarrow> nat \<Rightarrow> codec_error + jsstring" where
  "toBeHex_width v width =
     (if v < 0 then Inl NUMERIC_FAULT
      else
        let result = toString16 (nat v) in
        if \<not> width * 2 \<ge> length result then Inl NUMERIC_FAULT
        else Inr (js ''0x'' @ replicate (width * 2 - length result) (cu CHR ''0'') @ result))"

text \<open>
  \<open>getBytes(value)\<close> of a string: the string must match
  \<open>/^0x(?:[0-9a-f][0-9a-f])*$/i\<close>; each pair of digits is one byte.
\<close>

fun hexPairs :: "jsstring \<Rightarrow> byte list option" where
  "hexPairs [] = Some []"
| "hexPairs [c] = None"
| "hexPairs (c # d # cs) =
     (case digitValue c of
        None \<Rightarrow> None
      | Some hi \<Rightarrow>
          (case digitValue d of
             None \<Rightarrow> None
           | Some lo \<Rightarrow>
               (case hexPairs cs of
                  None \<Rightarrow> None
                | Some bs \<Rightarrow> Some (of_nat (hi * 16 + lo) # bs))))"

definition getBytes :: "jsstring \<Rightarrow> codec_error + byte list" where
  "getBytes s =
     (if startsWith s (js ''0x'') \<or> startsWith s (js ''0X'') then
        (case hexPairs (drop 2 s) of None \<Rightarrow> Inl INVALID_ARGUMENT | Some bs \<Rightarrow> Inr bs)
      else Inl INVALID_ARGUMENT)"

text \<open>\<open>hexlify(bytes)\<close>: \<open>0x\<close> and two lower-case digits for each byte.\<close>

definition hexlify :: "byte list \<Rightarrow> jsstring" where
  "hexlify bs =
     js ''0x'' @ concat (map (\<lambda>b. [hexDigit (unat b div 16), hexDigit (unat b mod 16)]) bs)"

text \<open>\<open>zeroPadValue(data, length)\<close>: the bytes of \<open>data\<close>, padded with zeros on the left.\<close>

definition zeroPadValue :: "jsstring \<Rightarrow> nat \<Rightarrow> codec_error + jsstring" where
  "zeroPadValue data len =
     (case getBytes data of
        Inl e \<Rightarrow> Inl e
      | Inr bytes \<Rightarrow>
          if \<not> len \<ge> length bytes then Inl BUFFER_OVERRUN
          else Inr (hexlify (replicate (len - length bytes) 0 @ bytes)))"

text \<open>
  \<open>ethers.keccak256(data)\<close> returns the digest as a hex string of 32 bytes.
\<close>

definition ethers_keccak256 :: "byte list \<Rightarrow> jsstring" where
  "ethers_keccak256 data = hexlify (be_bytes 32 (unat (keccak256 data)))"

subsection \<open>\<open>TextEncoder\<close> and \<open>TextDecoder\<close> (WHATWG Encoding)\<close>

text \<open>
  \<open>encode\<close> takes its argument as a string of scalar values: a surrogate pair is one
  code point, a surrogate that is not part of a pair becomes U+FFFD.
\<close>

definition isHighSurrogate :: "jschar \<Rightarrow> bool" where
  "isHighSurrogate c = (0xD800 \<le> unat c \<and> unat c \<le> 0xDBFF)"

definition isLowSurrogate :: "jschar \<Rightarrow> bool" where
  "isLowSurrogate c = (0xDC00 \<le> unat c \<and> unat c \<le> 0xDFFF)"

fun toScalarValues :: "jsstring \<Rightarrow> nat list" where
  "toScalarValues [] = []"
| "toScalarValues [c] = [if isHighSurrogate c \<or> isLowSurrogate c then 0xFFFD else unat c]"
| "toScalarValues (c # d # cs) =
     (if isHighSurrogate c \<and> isLowSurrogate d then
        (0x10000 + (unat c - 0xD800) * 0x400 + (unat d - 0xDC00)) # toScalarValues cs
      else if isHighSurrogate c \<or> isLowSurrogate c then 0xFFFD # toScalarValues (d # cs)
      else unat c # toScalarValues (d # cs))"

text \<open>The UTF-8 encoder, one code point at a time.\<close>

definition utf8_encode_cp :: "nat \<Rightarrow> byte list" where
  "utf8_encode_cp c =
     (if c \<le> 0x7F then [of_nat c]
      else if c \<le> 0x7FF then [of_nat (0xC0 + c div 64), of_nat (0x80 + c mod 64)]
      else if c \<le> 0xFFFF then
        [of_nat (0xE0 + c div 4096), of_nat (0x80 + (c div 64) mod 64), of_nat (0x80 + c mod 64)]
      else
        [of_nat (0xF0 + c div 262144), of_nat (0x80 + (c div 4096) mod 64),
         of_nat (0x80 + (c div 64) mod 64), of_nat (0x80 + c mod 64)])"

definition TextEncoder_encode :: "jsstring \<Rightarrow> byte list" where
  "TextEncoder_encode s = concat (map utf8_encode_cp (toScalarValues s))"

text \<open>
  The UTF-8 decoder in its default mode (errors are replaced by U+FFFD, nothing is
  thrown). The state is the decoder's: the code point under construction, the bytes
  seen and needed, and the bounds of the next continuation byte. A byte that does not
  continue a sequence ends it with U+FFFD and is read again from the initial state.
\<close>

record utf8_decoder =
  code_point :: nat
  bytes_seen :: nat
  bytes_needed :: nat
  lower_boundary :: nat
  upper_boundary :: nat

definition utf8_initial :: utf8_decoder where
  "utf8_initial = \<lparr> code_point = 0, bytes_seen = 0, bytes_needed = 0,
                     lower_boundary = 0x80, upper_boundary = 0xBF \<rparr>"

function utf8_decode :: "utf8_decoder \<Rightarrow> byte list \<Rightarrow> nat list" where
  "utf8_decode st [] = (if bytes_needed st \<noteq> 0 then [0xFFFD] else [])"
| "utf8_decode st (b # bs) =
     (let v = unat b in
      if bytes_needed st = 0 then
        (if v \<le> 0x7F then v # utf8_decode st bs
         else if 0xC2 \<le> v \<and> v \<le> 0xDF then
           utf8_decode (st\<lparr> bytes_needed := 1, code_point := v mod 32 \<rparr>) bs
         else if 0xE0 \<le> v \<and> v \<le> 0xEF then
           utf8_decode (st\<lparr> lower_boundary := (if v = 0xE0 then 0xA0 else lower_boundary st),
                              upper_boundary := (if v = 0xED then 0x9F else upper_boundary st),
                              bytes_needed := 2, code_point := v mod 16 \<rparr>) bs
         else if 0xF0 \<le> v \<and> v \<le> 0xF4 then
           utf8_decode (st\<lparr> lower_boundary := (if v = 0xF0 then 0x90 else lower_boundary st),
                              upper_boundary := (if v = 0xF4 then 0x8F else upper_boundary st),
                              bytes_needed := 3, code_point := v mod 8 \<rparr>) bs
         else 0xFFFD # utf8_decode st bs)
      else if \<not> (lower_boundary st \<le> v \<and> v \<le> upper_boundary st) then
        0xFFFD # utf8_decode utf8_initial (b # bs)
      else
        let st1 = st\<lparr> lower_boundary := 0x80, upper_boundary := 0xBF,
                       code_point := code_point st * 64 + v mod 64,
                       bytes_seen := bytes_seen st + 1 \<rparr>
        in if bytes_seen st1 \<noteq> bytes_needed st1 then utf8_decode st1 bs
           else code_point st1 # utf8_decode utf8_initial bs)"
  by pat_completeness auto
termination
  by (relation "measure (\<lambda>(st, bs). 2 * length bs + (if bytes_needed st = 0 then 0 else 1))")
     (auto simp: utf8_initial_def)

declare utf8_decode.simps [simp del]

text \<open>A scalar value as UTF-16 code units.\<close>

definition fromScalarValue :: "nat \<Rightarrow> jsstring" where
  "fromScalarValue c =
     (if c < 0x10000 then [of_nat c]
      else [of_nat (0xD800 + (c - 0x10000) div 0x400), of_nat (0xDC00 + (c - 0x10000) mod 0x400)])"

text \<open>
  \<open>new TextDecoder().decode(bytes)\<close>: the decoder is created without options, so
  \<open>fatal\<close> and \<open>ignoreBOM\<close> are false: errors are replaced, and a U+FEFF that is the
  first decoded code point is a byte order mark and is left out of the result.
\<close>

definition stripBOM :: "nat list \<Rightarrow> nat list" where
  "stripBOM cs = (case cs of [] \<Rightarrow> [] | c # rest \<Rightarrow> if c = 0xFEFF then rest else c # rest)"

definition TextDecoder_decode :: "byte list \<Rightarrow> jsstring" where
  "TextDecoder_decode bs = concat (map fromScalarValue (stripBOM (utf8_decode utf8_initial bs)))"

subsection \<open>Typed arrays\<close>

text \<open>
  \<open>target.set(source, offset)\<close> throws a \<open>RangeError\<close> when the source does not fit.
  Reading a typed array out of range gives \<open>undefined\<close>, which \<open>^\<close> takes as 0.
\<close>

definition uint8_set :: "byte list \<Rightarrow> byte list \<Rightarrow> nat \<Rightarrow> codec_error + byte list" where
  "uint8_set target source offset =
     (if offset + length source > length target then Inl RangeError
      else Inr (take offset target @ source @ drop (offset + length source) target))"

definition uint8_at :: "byte list \<Rightarrow> nat \<Rightarrow> byte" where
  "uint8_at a i = (if i < length a then a ! i else 0)"

subsection \<open>The codec\<close>

definition KEY_BYTES :: nat where
  "KEY_BYTES = 32"

definition MAX_MESSAGE_BYTES :: nat where
  "MAX_MESSAGE_BYTES = KEY_BYTES - 1"

definition deriveKeyBytes :: "jsstring \<Rightarrow> codec_error + byte list" where
  "deriveKeyBytes groupKey =
     (case (if startsWith groupKey (js ''0x'') then Inr groupKey
            else (case BigInt_string groupKey of Inl e \<Rightarrow> Inl e | Inr v \<Rightarrow> toBeHex v)) of
        Inl e \<Rightarrow> Inl e
      | Inr normalized \<Rightarrow>
          (case getBytes normalized of
             Inl e \<Rightarrow> Inl e
           | Inr bytes \<Rightarrow> getBytes (ethers_keccak256 bytes)))"

text \<open>The argument of \<open>normalizeGroupKey\<close> is a string or a bigint.\<close>

datatype key_value = KeyString jsstring | KeyBigint int

definition normalizeGroupKey :: "key_value \<Rightarrow> codec_error + jsstring" where
  "normalizeGroupKey v =
     (case (case v of KeyBigint b \<Rightarrow> Inr b | KeyString s \<Rightarrow> BigInt_string s) of
        Inl e \<Rightarrow> Inl e
      | Inr bigValue \<Rightarrow> toBeHex_width bigValue 20)"

text \<open>The loop \<open>for (i = 0; i < KEY_BYTES; i++) payload[i] ^= keyBytes[i]\<close>.\<close>

definition xorKey :: "byte list \<Rightarrow> byte list \<Rightarrow> byte list" where
  "xorKey payload keyBytes =
     foldl (\<lambda>p i. if i < length p then p[i := p ! i XOR uint8_at keyBytes i] else p)
       payload [0..<KEY_BYTES]"

definition sealMessage :: "jsstring \<Rightarrow> jsstring \<Rightarrow> codec_error + int" where
  "sealMessage message groupKey =
     (case deriveKeyBytes groupKey of
        Inl e \<Rightarrow> Inl e
      | Inr keyBytes \<Rightarrow>
          let encoded = TextEncoder_encode message in
          if length encoded > MAX_MESSAGE_BYTES then Inl MessageTooLong
          else
            let payload = replicate KEY_BYTES (0 :: byte);
                payload = payload[0 := of_nat (length encoded)]
            in case uint8_set payload encoded 1 of
                 Inl e \<Rightarrow> Inl e
               | Inr payload \<Rightarrow> BigInt_string (hexlify (xorKey payload keyBytes)))"

text \<open>
  In \<open>openMessage\<close>, \<open>payload.map((byte, idx) => byte ^ keyBytes[idx])\<close> is a map over
  the bytes with their indices, and \<open>plain.slice(1, 1 + length)\<close> stops at the end of
  the array.
\<close>

definition openMessage :: "int \<Rightarrow> jsstring \<Rightarrow> codec_error + jsstring" where
  "openMessage cipherValue groupKey =
     (case deriveKeyBytes groupKey of
        Inl e \<Rightarrow> Inl e
      | Inr keyBytes \<Rightarrow>
          (case toBeHex cipherValue of
             Inl e \<Rightarrow> Inl e
           | Inr hex \<Rightarrow>
               (case zeroPadValue hex KEY_BYTES of
                  Inl e \<Rightarrow> Inl e
                | Inr padded \<Rightarrow>
                    (case getBytes padded of
                       Inl e \<Rightarrow> Inl e
                     | Inr payload \<Rightarrow>
                         let plain = map (\<lambda>(byte, idx). byte XOR uint8_at keyBytes idx)
                                       (zip payload [0..<length payload]);
                             len = unat (uint8_at plain 0);
                             slice = take len (drop 1 plain)
                         in Inr (TextDecoder_decode slice)))))"


section \<open>Notions used in the statements\<close>

text \<open>The two digits \<open>hexlify\<close> writes for a byte.\<close>

abbreviation hexPair :: "byte \<Rightarrow> jsstring" where
  "hexPair b \<equiv> [hexDigit (unat b div 16), hexDigit (unat b mod 16)]"

text \<open>The number of bytes \<open>toBeHex\<close> writes for a value.\<close>

definition byteLength :: "nat \<Rightarrow> nat" where
  "byteLength n = (length (toString16 n) + 1) div 2"

text \<open>A Unicode scalar value: a code point that is not a surrogate.\<close>

definition isScalarValue :: "nat \<Rightarrow> bool" where
  "isScalarValue c = (c < 0x110000 \<and> \<not> (0xD800 \<le> c \<and> c \<le> 0xDFFF))"

text \<open>A well-formed string: every surrogate is part of a pair.\<close>

fun wellFormed :: "jsstring \<Rightarrow> bool" where
  "wellFormed [] = True"
| "wellFormed [c] = (\<not> (isHighSurrogate c \<or> isLowSurrogate c))"
| "wellFormed (c # d # cs) =
     (if isHighSurrogate c \<and> isLowSurrogate d then wellFormed cs
      else \<not> (isHighSurrogate c \<or> isLowSurrogate c) \<and> wellFormed (d # cs))"

text \<open>
  The block \<open>sealMessage\<close> builds before the XOR: the length, the encoded message, and
  zeros up to 32 bytes.
\<close>

definition envelope :: "byte list \<Rightarrow> byte list" where
  "envelope encoded =
     of_nat (length encoded) # encoded @ replicate (MAX_MESSAGE_BYTES - length encoded) 0"
section \<open>Fixtures: the scenarios of test/ZVerseGroups.ts\<close>

definition fhe0 :: fhevm where
  "fhe0 = \<lparr> asEaddress = ucast,
            fromExternal = (\<lambda>a h p. if p = [] then None else Some h) \<rparr>"

definition env_of :: "address \<Rightarrow> tx_env" where
  "env_of a = \<lparr> msg_sender = a, block_timestamp = 1700000000, block_prevrandao = 7, this = 0xC0DE \<rparr>"

definition alice :: address where "alice = 0xA11CE"
definition bob :: address where "bob = 0xB0B"
definition carol :: address where "carol = 0xCA401"

definition history_state :: registry where
  "history_state = run fhe0 [(env_of alice, CreateGroup ''History''),
                             (env_of alice, SendMessage 0 1234 [1])]"

definition chat_state :: registry where
  "chat_state = run fhe0 [(env_of alice, CreateGroup ''Chat''),
                          (env_of bob, JoinGroup 0), (env_of carol, JoinGroup 0)]"



section \<open>Big-endian bytes\<close>


lemma length_be_bytes [simp]: "length (be_bytes n v) = n"
  by (induction n arbitrary: v) simp_all

lemma be_nat_Nil [simp]: "be_nat [] = 0"
  by (simp add: be_nat_def)

lemma be_nat_snoc [simp]: "be_nat (bs @ [b]) = be_nat bs * 256 + unat b"
  by (simp add: be_nat_def)

lemma be_nat_append: "be_nat (as @ bs) = be_nat as * 256 ^ length bs + be_nat bs"
  by (induction bs rule: rev_induct) (simp_all add: algebra_simps flip: append_assoc)

lemma be_nat_Cons: "be_nat (b # bs) = unat b * 256 ^ length bs + be_nat bs"
  using be_nat_append [of "[b]" bs] be_nat_snoc [of "[]" b] by simp

lemma be_nat_bound: "be_nat bs < 256 ^ length bs"
proof (induction bs rule: rev_induct)
  case Nil
  then show ?case by simp
next
  case (snoc b bs)
  have "unat b < 256" using unsigned_less [of b] by simp
  with snoc show ?case by simp
qed

lemma be_nat_replicate_zero [simp]: "be_nat (replicate k 0 @ bs) = be_nat bs"
proof -
  have "be_nat (replicate k (0::byte)) = 0"
    by (induction k) (simp_all add: be_nat_Cons)
  then show ?thesis by (simp add: be_nat_append)
qed

lemma unat_byte_of_nat: "n < 256 \<Longrightarrow> unat (of_nat n :: byte) = n"
  by (simp add: unat_of_nat)

lemma be_nat_be_bytes: "be_nat (be_bytes n v) = v mod 256 ^ n"
proof (induction n arbitrary: v)
  case 0
  then show ?case by simp
next
  case (Suc n)
  have "be_nat (be_bytes (Suc n) v) = (v div 256) mod 256 ^ n * 256 + v mod 256"
    by (simp add: Suc unat_byte_of_nat)
  also have "\<dots> = v mod 256 ^ Suc n"
    by (simp add: mod_mult2_eq)
  finally show ?case .
qed

lemma be_bytes_be_nat: "be_bytes (length bs) (be_nat bs) = bs"
proof (induction bs rule: rev_induct)
  case Nil
  then show ?case by simp
next
  case (snoc b bs)
  have b: "unat b < 256" using unsigned_less [of b] by simp
  have "(be_nat bs * 256 + unat b) div 256 = be_nat bs" using b by simp
  moreover have "(be_nat bs * 256 + unat b) mod 256 = unat b" using b by simp
  ultimately show ?case using snoc by simp
qed

lemma be_nat_inj:
  assumes "length as = length bs" and "be_nat as = be_nat bs"
  shows "as = bs"
proof -
  have "as = be_bytes (length as) (be_nat as)" by (simp only: be_bytes_be_nat)
  also have "\<dots> = be_bytes (length bs) (be_nat bs)" by (simp only: assms)
  also have "\<dots> = bs" by (simp only: be_bytes_be_nat)
  finally show ?thesis .
qed



section \<open>Evaluating Keccak-256\<close>

text \<open>Each step of a round on a state given lane by lane.\<close>

lemma upt_5: "[0..<5] = [0, 1, 2, 3, 4]"
  by (simp add: upt_rec)

lemma upt_25: "[0..<25] = [0, 1, 2, 3, 4, 5, 6, 7, 8, 9, 10, 11, 12, 13, 14, 15, 16, 17, 18, 19,
                           20, 21, 22, 23, 24]"
  by (simp add: upt_rec)

lemma theta_C_eval:
  "theta_C [a0, a1, a2, a3, a4, a5, a6, a7, a8, a9, a10, a11, a12, a13, a14, a15, a16, a17, a18,
            a19, a20, a21, a22, a23, a24]
   = [a0 XOR a5 XOR a10 XOR a15 XOR a20, a1 XOR a6 XOR a11 XOR a16 XOR a21,
      a2 XOR a7 XOR a12 XOR a17 XOR a22, a3 XOR a8 XOR a13 XOR a18 XOR a23,
      a4 XOR a9 XOR a14 XOR a19 XOR a24]"
  by (simp add: theta_C_def upt_5)

lemma theta_D_eval:
  "theta_D [c0, c1, c2, c3, c4]
   = [c4 XOR rol64 c1 1, c0 XOR rol64 c2 1, c1 XOR rol64 c3 1, c2 XOR rol64 c4 1,
      c3 XOR rol64 c0 1]"
  by (simp add: theta_D_def upt_5)

lemma theta_xor_eval:
  "theta_xor [a0, a1, a2, a3, a4, a5, a6, a7, a8, a9, a10, a11, a12, a13, a14, a15, a16, a17,
              a18, a19, a20, a21, a22, a23, a24] [d0, d1, d2, d3, d4]
   = [a0 XOR d0, a1 XOR d1, a2 XOR d2, a3 XOR d3, a4 XOR d4,
      a5 XOR d0, a6 XOR d1, a7 XOR d2, a8 XOR d3, a9 XOR d4,
      a10 XOR d0, a11 XOR d1, a12 XOR d2, a13 XOR d3, a14 XOR d4,
      a15 XOR d0, a16 XOR d1, a17 XOR d2, a18 XOR d3, a19 XOR d4,
      a20 XOR d0, a21 XOR d1, a22 XOR d2, a23 XOR d3, a24 XOR d4]"
  by (simp add: theta_xor_def upt_25)

lemma rho_pi_eval:
  "rho_pi [a0, a1, a2, a3, a4, a5, a6, a7, a8, a9, a10, a11, a12, a13, a14, a15, a16, a17, a18,
           a19, a20, a21, a22, a23, a24]
   = [rol64 a0 0, rol64 a6 44, rol64 a12 43, rol64 a18 21, rol64 a24 14,
      rol64 a3 28, rol64 a9 20, rol64 a10 3, rol64 a16 45, rol64 a22 61,
      rol64 a1 1, rol64 a7 6, rol64 a13 25, rol64 a19 8, rol64 a20 18,
      rol64 a4 27, rol64 a5 36, rol64 a11 10, rol64 a17 15, rol64 a23 56,
      rol64 a2 62, rol64 a8 55, rol64 a14 39, rol64 a15 41, rol64 a21 2]"
  by (simp add: rho_pi_def upt_25 keccak_rot_def)

lemma chi_eval:
  "chi [b0, b1, b2, b3, b4, b5, b6, b7, b8, b9, b10, b11, b12, b13, b14, b15, b16, b17, b18,
        b19, b20, b21, b22, b23, b24]
   = [b0 XOR (NOT b1 AND b2), b1 XOR (NOT b2 AND b3), b2 XOR (NOT b3 AND b4),
      b3 XOR (NOT b4 AND b0), b4 XOR (NOT b0 AND b1),
      b5 XOR (NOT b6 AND b7), b6 XOR (NOT b7 AND b8), b7 XOR (NOT b8 AND b9),
      b8 XOR (NOT b9 AND b5), b9 XOR (NOT b5 AND b6),
      b10 XOR (NOT b11 AND b12), b11 XOR (NOT b12 AND b13), b12 XOR (NOT b13 AND b14),
      b13 XOR (NOT b14 AND b10), b14 XOR (NOT b10 AND b11),
      b15 XOR (NOT b16 AND b17), b16 XOR (NOT b17 AND b18), b17 XOR (NOT b18 AND b19),
      b18 XOR (NOT b19 AND b15), b19 XOR (NOT b15 AND b16),
      b20 XOR (NOT b21 AND b22), b21 XOR (NOT b22 AND b23), b22 XOR (NOT b23 AND b24),
      b23 XOR (NOT b24 AND b20), b24 XOR (NOT b20 AND b21)]"
  by (simp add: chi_def upt_25)


lemma length_keccak_pad:
  assumes "length m < 136"
  shows "length (keccak_pad m) = 136"
  using assms by (auto simp: keccak_pad_def Let_def)

lemma length_block_lanes: "length (block_lanes p) = 25"
  by (simp add: block_lanes_def)

lemma absorb_single_block:
  assumes "length p = 136"
  shows "absorb (replicate 25 0) p = keccak_f1600 (block_lanes p)"
proof -
  have "map2 (XOR) (replicate 25 0) (block_lanes p) = block_lanes p"
    by (rule nth_equalityI) (simp_all add: length_block_lanes)
  then show ?thesis
    using assms by (subst absorb.simps, subst absorb.simps) simp
qed

lemma keccak256_single_block:
  assumes "length m < 136"
  shows "keccak256 m
         = of_nat (be_nat (concat (map lane_bytes (take 4 (keccak_f1600 (block_lanes (keccak_pad m)))))))"
  by (simp add: keccak256_def keccak256_bytes_def absorb_single_block length_keccak_pad [OF assms])

lemma upt_8: "[0..<8] = [0, 1, 2, 3, 4, 5, 6, 7]"
  by (simp add: upt_rec)


text \<open>
  The digests of the byte \<open>01\<close> and of the 20 bytes \<open>00 .. 00 01\<close>, round by round.
\<close>

lemma keccak_byte1_block: "block_lanes (keccak_pad [1]) =
    [257, 0, 0, 0, 0, 0, 0, 0, 0, 0, 0, 0, 0, 0, 0, 0, 9223372036854775808, 0, 0, 0, 0, 0, 0, 0,
    0]"
  by code_simp

lemma keccak_byte1_round_0:
  "keccak_round
    [257, 0, 0, 0, 0, 0, 0, 0, 0, 0, 0, 0, 0, 0, 0, 0, 9223372036854775808, 0, 0, 0, 0, 0, 0, 0,
    0]
    1 =
    [4398046511361, 4521191813414912, 4398054932480, 256, 4521191821836288, 8, 9059976351842304,
    1152921504606846984, 9059975812874240, 1152921505145815040, 514, 131616, 262144, 131074,
    262176, 68988175360, 68719493120, 263168, 68987928576, 0, 2306125583702032384,
    2199023255552, 282574488339460, 2305845208236949504, 1028]"
  by (simp add: keccak_round_def theta_def theta_C_eval theta_D_eval theta_xor_eval rho_pi_eval chi_eval iota_def rol64_def)

lemma keccak_byte1_round_1:
  "keccak_round
    [4398046511361, 4521191813414912, 4398054932480, 256, 4521191821836288, 8, 9059976351842304,
    1152921504606846984, 9059975812874240, 1152921505145815040, 514, 131616, 262144, 131074,
    262176, 68988175360, 68719493120, 263168, 68987928576, 0, 2306125583702032384,
    2199023255552, 282574488339460, 2305845208236949504, 1028]
    32898 =
    [1616882571686183398, 17328489321320613686, 1874946605882382345, 12860707243760682305,
    14847571927200242202, 332766744332600128, 12349224927812321827, 9479701066791832500,
    12462287070982963312, 10020274728771639463, 46211583152115308, 4479300558032674612,
    6053423460228563919, 2458415710125496898, 5228683015804207317, 9347245751577681217,
    3242599223824704062, 5205142343343474048, 11717335205282984057, 5336802555353992078,
    1529969038769621009, 16866051567571207205, 514446578862785556, 15571416356460028128,
    2453393358372239496]"
  by (simp add: keccak_round_def theta_def theta_C_eval theta_D_eval theta_xor_eval rho_pi_eval chi_eval iota_def rol64_def)

lemma keccak_byte1_round_2:
  "keccak_round
    [1616882571686183398, 17328489321320613686, 1874946605882382345, 12860707243760682305,
    14847571927200242202, 332766744332600128, 12349224927812321827, 9479701066791832500,
    12462287070982963312, 10020274728771639463, 46211583152115308, 4479300558032674612,
    6053423460228563919, 2458415710125496898, 5228683015804207317, 9347245751577681217,
    3242599223824704062, 5205142343343474048, 11717335205282984057, 5336802555353992078,
    1529969038769621009, 16866051567571207205, 514446578862785556, 15571416356460028128,
    2453393358372239496]
    9223372036854808714 =
    [18426838628962438263, 12093117898171347837, 17116456876701449554, 8675375890273493592,
    16342146497755163491, 11568235850714919635, 1981031530285583535, 1101535664192797473,
    16394903362751724647, 2185525125864531159, 16405689241415307922, 17528481771938269098,
    58736258794367544, 1278710538140088577, 7430319321072719843, 12434712564928701611,
    11233583283357916871, 3709327990364376629, 18425772874005174037, 9939891045058877847,
    11352639003262271229, 12633173111678795403, 17296722009453734213, 155533893993375782,
    9774737841446173129]"
  by (simp add: keccak_round_def theta_def theta_C_eval theta_D_eval theta_xor_eval rho_pi_eval chi_eval iota_def rol64_def)

lemma keccak_byte1_round_3:
  "keccak_round
    [18426838628962438263, 12093117898171347837, 17116456876701449554, 8675375890273493592,
    16342146497755163491, 11568235850714919635, 1981031530285583535, 1101535664192797473,
    16394903362751724647, 2185525125864531159, 16405689241415307922, 17528481771938269098,
    58736258794367544, 1278710538140088577, 7430319321072719843, 12434712564928701611,
    11233583283357916871, 3709327990364376629, 18425772874005174037, 9939891045058877847,
    11352639003262271229, 12633173111678795403, 17296722009453734213, 155533893993375782,
    9774737841446173129]
    9223372039002292224 =
    [2074869201983669046, 18253052311567710303, 16445519525802186594, 18434748126154501018,
    4804910539682671129, 11883802701288578379, 6205864822382397740, 3347792376786110396,
    14401282933224075215, 9191343013224263689, 15720122339434728135, 15303420835716256482,
    14355765910535687913, 8569454480967163809, 10977892215949867674, 15848978797763536378,
    5395078347372573539, 116892290614359283, 3951286600682287800, 3028081465131537554,
    2185828214745455963, 17364938870430880576, 9284053834446012688, 5280779211990532905,
    2442976877745109589]"
  by (simp add: keccak_round_def theta_def theta_C_eval theta_D_eval theta_xor_eval rho_pi_eval chi_eval iota_def rol64_def)

lemma keccak_byte1_round_4:
  "keccak_round
    [2074869201983669046, 18253052311567710303, 16445519525802186594, 18434748126154501018,
    4804910539682671129, 11883802701288578379, 6205864822382397740, 3347792376786110396,
    14401282933224075215, 9191343013224263689, 15720122339434728135, 15303420835716256482,
    14355765910535687913, 8569454480967163809, 10977892215949867674, 15848978797763536378,
    5395078347372573539, 116892290614359283, 3951286600682287800, 3028081465131537554,
    2185828214745455963, 17364938870430880576, 9284053834446012688, 5280779211990532905,
    2442976877745109589]
    32907 =
    [4373590629934498456, 11099643501388539056, 10272650357320035565, 16228766251147916183,
    16168626487266746961, 11321806254254441315, 12678680601643047640, 17313543181821161462,
    4035853249919897174, 2740335142724362837, 9528524970016755027, 4799004112368972150,
    9481448661449170954, 2843780003389555724, 14292411854478695299, 3899233296149982772,
    17120652994923989991, 17109848731631839722, 16077034344770016560, 12617188558843521463,
    10128946989568201271, 7139024404765946060, 6683408307832320377, 18381872134166690943,
    8986824554998370049]"
  by (simp add: keccak_round_def theta_def theta_C_eval theta_D_eval theta_xor_eval rho_pi_eval chi_eval iota_def rol64_def)

lemma keccak_byte1_round_5:
  "keccak_round
    [4373590629934498456, 11099643501388539056, 10272650357320035565, 16228766251147916183,
    16168626487266746961, 11321806254254441315, 12678680601643047640, 17313543181821161462,
    4035853249919897174, 2740335142724362837, 9528524970016755027, 4799004112368972150,
    9481448661449170954, 2843780003389555724, 14292411854478695299, 3899233296149982772,
    17120652994923989991, 17109848731631839722, 16077034344770016560, 12617188558843521463,
    10128946989568201271, 7139024404765946060, 6683408307832320377, 18381872134166690943,
    8986824554998370049]
    2147483649 =
    [926576442431672769, 17264402195959790049, 15067229326042712978, 17798934852413082176,
    3221337456498249488, 17687464394710028896, 13096464345519637352, 2439994549128712388,
    18269177666274059824, 3152461291945218449, 12229027566964607599, 7951352921986085802,
    6390402854661647704, 8748669922300208753, 12652738612185170625, 9776752785962406236,
    17207202628866564946, 17790009981162581544, 336969531319500868, 17750290912475097407,
    6262646598078683767, 14657864071633642443, 7094586756895450563, 1174196960034553756,
    2180347203325656077]"
  by (simp add: keccak_round_def theta_def theta_C_eval theta_D_eval theta_xor_eval rho_pi_eval chi_eval iota_def rol64_def)

lemma keccak_byte1_round_6:
  "keccak_round
    [926576442431672769, 17264402195959790049, 15067229326042712978, 17798934852413082176,
    3221337456498249488, 17687464394710028896, 13096464345519637352, 2439994549128712388,
    18269177666274059824, 3152461291945218449, 12229027566964607599, 7951352921986085802,
    6390402854661647704, 8748669922300208753, 12652738612185170625, 9776752785962406236,
    17207202628866564946, 17790009981162581544, 336969531319500868, 17750290912475097407,
    6262646598078683767, 14657864071633642443, 7094586756895450563, 1174196960034553756,
    2180347203325656077]
    9223372039002292353 =
    [17268168134427871334, 12944875118615375054, 8178225192847865253, 9417325587430582780,
    13917617600603880175, 5249658353741105117, 3226830069720005818, 1165766944196690799,
    12899904489851967964, 17344882212446742747, 825214320569615644, 5217421346805160511,
    3895642895831389363, 14182247747889016095, 1403867102477313296, 9184314008298609910,
    3625123270534071126, 8775298469562135835, 6557120048191790257, 11359524504285618384,
    13882527176012400748, 13305504644794068196, 6176796707449628830, 7032038396039433568,
    15506907945800583696]"
  by (simp add: keccak_round_def theta_def theta_C_eval theta_D_eval theta_xor_eval rho_pi_eval chi_eval iota_def rol64_def)

lemma keccak_byte1_round_7:
  "keccak_round
    [17268168134427871334, 12944875118615375054, 8178225192847865253, 9417325587430582780,
    13917617600603880175, 5249658353741105117, 3226830069720005818, 1165766944196690799,
    12899904489851967964, 17344882212446742747, 825214320569615644, 5217421346805160511,
    3895642895831389363, 14182247747889016095, 1403867102477313296, 9184314008298609910,
    3625123270534071126, 8775298469562135835, 6557120048191790257, 11359524504285618384,
    13882527176012400748, 13305504644794068196, 6176796707449628830, 7032038396039433568,
    15506907945800583696]
    9223372036854808585 =
    [18302729133523113643, 3300290356528685349, 16997987383223624145, 5719495899113895552,
    14301315287000624802, 15619459850870426015, 1571623025671114807, 9526127126042133056,
    4332520562318573793, 8612344141544344215, 2612732970668472860, 8615842447400867520,
    6801727098927331530, 2990797555111384690, 14704785575532203216, 17482290224729621609,
    4963421131201619396, 9074610753019832822, 8082036857713171468, 5812549991406350029,
    7980452749008704081, 8437889024929425486, 3938676047272671421, 10067093338233441585,
    16451537888561781131]"
  by (simp add: keccak_round_def theta_def theta_C_eval theta_D_eval theta_xor_eval rho_pi_eval chi_eval iota_def rol64_def)

lemma keccak_byte1_round_8:
  "keccak_round
    [18302729133523113643, 3300290356528685349, 16997987383223624145, 5719495899113895552,
    14301315287000624802, 15619459850870426015, 1571623025671114807, 9526127126042133056,
    4332520562318573793, 8612344141544344215, 2612732970668472860, 8615842447400867520,
    6801727098927331530, 2990797555111384690, 14704785575532203216, 17482290224729621609,
    4963421131201619396, 9074610753019832822, 8082036857713171468, 5812549991406350029,
    7980452749008704081, 8437889024929425486, 3938676047272671421, 10067093338233441585,
    16451537888561781131]
    138 =
    [14365087750801202289, 10480285104655313580, 11935376311063178594, 13968323457551784042,
    4036798096696163361, 5227681082987157553, 17588851454784750433, 10230170797543489662,
    32266146901190289, 13065729385056439255, 14213719344304702138, 1588480838659182886,
    4917208719084938150, 17390779524112302790, 5750056394717658416, 12479192875282733603,
    2963484806452273107, 10748865845490075946, 18289375030757864099, 2788664108199627944,
    3879604264721960305, 15562315232952852658, 12929245026479132342, 11159048576000472699,
    12870313292588199282]"
  by (simp add: keccak_round_def theta_def theta_C_eval theta_D_eval theta_xor_eval rho_pi_eval chi_eval iota_def rol64_def)

lemma keccak_byte1_round_9:
  "keccak_round
    [14365087750801202289, 10480285104655313580, 11935376311063178594, 13968323457551784042,
    4036798096696163361, 5227681082987157553, 17588851454784750433, 10230170797543489662,
    32266146901190289, 13065729385056439255, 14213719344304702138, 1588480838659182886,
    4917208719084938150, 17390779524112302790, 5750056394717658416, 12479192875282733603,
    2963484806452273107, 10748865845490075946, 18289375030757864099, 2788664108199627944,
    3879604264721960305, 15562315232952852658, 12929245026479132342, 11159048576000472699,
    12870313292588199282]
    136 =
    [737649617450117172, 9086187274203811339, 10506073440961680549, 7500004579785538334,
    3563018126456477038, 11483774876094434872, 14311300165298302253, 301524810474960266,
    13176518695387625384, 12836443002932995611, 12587414858957746885, 18257856472743318442,
    9612548350365450716, 2291835264832704084, 3637372840417193332, 7645620652578776144,
    10456130355713484235, 11240727751185599752, 7966946825594567591, 17328959634183228869,
    9365695063937946856, 10493255869712197071, 11642335518752790060, 6257001306823264639,
    95957894084552014]"
  by (simp add: keccak_round_def theta_def theta_C_eval theta_D_eval theta_xor_eval rho_pi_eval chi_eval iota_def rol64_def)

lemma keccak_byte1_round_10:
  "keccak_round
    [737649617450117172, 9086187274203811339, 10506073440961680549, 7500004579785538334,
    3563018126456477038, 11483774876094434872, 14311300165298302253, 301524810474960266,
    13176518695387625384, 12836443002932995611, 12587414858957746885, 18257856472743318442,
    9612548350365450716, 2291835264832704084, 3637372840417193332, 7645620652578776144,
    10456130355713484235, 11240727751185599752, 7966946825594567591, 17328959634183228869,
    9365695063937946856, 10493255869712197071, 11642335518752790060, 6257001306823264639,
    95957894084552014]
    2147516425 =
    [13904600602161953703, 8766558213879024567, 15314563059745333153, 4195709556569057235,
    9586840098866271827, 5475309400018019958, 11047586080407336876, 228028945868749483,
    10363521892445520523, 3949099564192612690, 18376033783684512169, 17379205909024889157,
    8387032035421748032, 15015465963166470024, 5612504958667679884, 5198256502003114651,
    10723803147394356213, 15959873066113553907, 5444855054345171598, 3074875431827407743,
    282429653069821211, 13081583270568544946, 17220320817808993885, 2624671973628052104,
    16541888378211258976]"
  by (simp add: keccak_round_def theta_def theta_C_eval theta_D_eval theta_xor_eval rho_pi_eval chi_eval iota_def rol64_def)

lemma keccak_byte1_round_11:
  "keccak_round
    [13904600602161953703, 8766558213879024567, 15314563059745333153, 4195709556569057235,
    9586840098866271827, 5475309400018019958, 11047586080407336876, 228028945868749483,
    10363521892445520523, 3949099564192612690, 18376033783684512169, 17379205909024889157,
    8387032035421748032, 15015465963166470024, 5612504958667679884, 5198256502003114651,
    10723803147394356213, 15959873066113553907, 5444855054345171598, 3074875431827407743,
    282429653069821211, 13081583270568544946, 17220320817808993885, 2624671973628052104,
    16541888378211258976]
    2147483658 =
    [9940858082610593293, 7273820342536735855, 2033175698715581270, 17891425763015734656,
    17702010518538626290, 15074983610665511072, 4807181613589901431, 8648246595929857245,
    13644980955693550447, 2276949405786224552, 13969718594275135258, 15127744584502122433,
    6163601502574554551, 15489520071678523743, 6655647225846288188, 8794579303657521217,
    2234926037083496210, 12039523630478119371, 18232555985827003404, 5608416090640576876,
    12428550813257175493, 3296337401611135379, 13185507895059901889, 12421322710884208303,
    12299931861608816694]"
  by (simp add: keccak_round_def theta_def theta_C_eval theta_D_eval theta_xor_eval rho_pi_eval chi_eval iota_def rol64_def)

lemma keccak_byte1_round_12:
  "keccak_round
    [9940858082610593293, 7273820342536735855, 2033175698715581270, 17891425763015734656,
    17702010518538626290, 15074983610665511072, 4807181613589901431, 8648246595929857245,
    13644980955693550447, 2276949405786224552, 13969718594275135258, 15127744584502122433,
    6163601502574554551, 15489520071678523743, 6655647225846288188, 8794579303657521217,
    2234926037083496210, 12039523630478119371, 18232555985827003404, 5608416090640576876,
    12428550813257175493, 3296337401611135379, 13185507895059901889, 12421322710884208303,
    12299931861608816694]
    2147516555 =
    [10696876611774663978, 4054289172716302686, 9666484726100529437, 9729990041350760655,
    6625670303469858213, 5712858589071238861, 2792142558837740717, 1078870108742637497,
    2767994759809485022, 16026518004307561333, 7312405167993016608, 51825666932275359,
    12835811353118158312, 15326498981542893905, 9347289357610612012, 3970432317910670718,
    8769490139253230634, 17445064749118911354, 16609011668417148836, 12243616982139136770,
    8578430589747012230, 10805568858516037747, 4041213312817655501, 8316913078341017811,
    673842405169051473]"
  by (simp add: keccak_round_def theta_def theta_C_eval theta_D_eval theta_xor_eval rho_pi_eval chi_eval iota_def rol64_def)

lemma keccak_byte1_round_13:
  "keccak_round
    [10696876611774663978, 4054289172716302686, 9666484726100529437, 9729990041350760655,
    6625670303469858213, 5712858589071238861, 2792142558837740717, 1078870108742637497,
    2767994759809485022, 16026518004307561333, 7312405167993016608, 51825666932275359,
    12835811353118158312, 15326498981542893905, 9347289357610612012, 3970432317910670718,
    8769490139253230634, 17445064749118911354, 16609011668417148836, 12243616982139136770,
    8578430589747012230, 10805568858516037747, 4041213312817655501, 8316913078341017811,
    673842405169051473]
    9223372036854775947 =
    [6694283462491369589, 9785214655487602091, 15214712608570883518, 9424217848120235377,
    15861840886783952974, 12688909678597284647, 14575929292238891184, 5628077930911885137,
    9265695332391448326, 12372766580826783970, 7701877973848421644, 15148189745693831259,
    6053525634294633003, 10147977901530442685, 7755568940142876327, 12891556323098723536,
    1438039751495578986, 6851426815428215924, 1138356782172792001, 8565295159086836194,
    17288516191488565019, 13361784946124390320, 13462019454340267422, 8252132661444939003,
    4114581018158105134]"
  by (simp add: keccak_round_def theta_def theta_C_eval theta_D_eval theta_xor_eval rho_pi_eval chi_eval iota_def rol64_def)

lemma keccak_byte1_round_14:
  "keccak_round
    [6694283462491369589, 9785214655487602091, 15214712608570883518, 9424217848120235377,
    15861840886783952974, 12688909678597284647, 14575929292238891184, 5628077930911885137,
    9265695332391448326, 12372766580826783970, 7701877973848421644, 15148189745693831259,
    6053525634294633003, 10147977901530442685, 7755568940142876327, 12891556323098723536,
    1438039751495578986, 6851426815428215924, 1138356782172792001, 8565295159086836194,
    17288516191488565019, 13361784946124390320, 13462019454340267422, 8252132661444939003,
    4114581018158105134]
    9223372036854808713 =
    [5033479257594886158, 6016762959213470090, 12967135725125215899, 3377777268501789422,
    5999735351705165394, 2496661029585187433, 18217461574604350534, 1944541303714280426,
    3302751351891882735, 8385180271848008254, 739863434973671900, 482045305053438598,
    14280955891603724254, 2648831422263696819, 14187610817150276454, 7193143899105559456,
    4264510311706745395, 561093142458562631, 3279512050191550203, 5464286297954692061,
    4966227842158362129, 5841597141715518875, 2992948542144541396, 9510690018746695376,
    9011468409907347566]"
  by (simp add: keccak_round_def theta_def theta_C_eval theta_D_eval theta_xor_eval rho_pi_eval chi_eval iota_def rol64_def)

lemma keccak_byte1_round_15:
  "keccak_round
    [5033479257594886158, 6016762959213470090, 12967135725125215899, 3377777268501789422,
    5999735351705165394, 2496661029585187433, 18217461574604350534, 1944541303714280426,
    3302751351891882735, 8385180271848008254, 739863434973671900, 482045305053438598,
    14280955891603724254, 2648831422263696819, 14187610817150276454, 7193143899105559456,
    4264510311706745395, 561093142458562631, 3279512050191550203, 5464286297954692061,
    4966227842158362129, 5841597141715518875, 2992948542144541396, 9510690018746695376,
    9011468409907347566]
    9223372036854808579 =
    [11401737003048052539, 6304547209632472485, 837767065262603119, 6624516853804749524,
    5155885610228564005, 5646018267674678754, 5753191183119261040, 8006878889469030146,
    1857935866024727729, 12552203239487848993, 8879057541030452980, 12900717408250236576,
    16082143807246431501, 9091012970137940359, 5921572349363379754, 9978136186350549258,
    9034241688268996938, 423651007819929402, 12693909848320467436, 15737903508437132779,
    11270575209199886622, 7640353814645118513, 5015660826778540746, 2777798074735453008,
    2849833113322740103]"
  by (simp add: keccak_round_def theta_def theta_C_eval theta_D_eval theta_xor_eval rho_pi_eval chi_eval iota_def rol64_def)

lemma keccak_byte1_round_16:
  "keccak_round
    [11401737003048052539, 6304547209632472485, 837767065262603119, 6624516853804749524,
    5155885610228564005, 5646018267674678754, 5753191183119261040, 8006878889469030146,
    1857935866024727729, 12552203239487848993, 8879057541030452980, 12900717408250236576,
    16082143807246431501, 9091012970137940359, 5921572349363379754, 9978136186350549258,
    9034241688268996938, 423651007819929402, 12693909848320467436, 15737903508437132779,
    11270575209199886622, 7640353814645118513, 5015660826778540746, 2777798074735453008,
    2849833113322740103]
    9223372036854808578 =
    [7057291274986141558, 12918155605822870881, 11723284937445034549, 1374005545400903112,
    4797064150266330468, 11965954173028437000, 13850575457860345913, 3896678283444637816,
    2703381831735298253, 8372559357887960475, 9198367089007964670, 12902972868363529835,
    16824817308954547425, 6982831182179772218, 10293142462923244110, 1651155165693576897,
    9459388698430067465, 2299645919409726049, 13245548231181497368, 7297485310556468383,
    10776145872710410804, 4783191940693840636, 17231202999976785147, 11770897226140515312,
    13857932523363874156]"
  by (simp add: keccak_round_def theta_def theta_C_eval theta_D_eval theta_xor_eval rho_pi_eval chi_eval iota_def rol64_def)

lemma keccak_byte1_round_17:
  "keccak_round
    [7057291274986141558, 12918155605822870881, 11723284937445034549, 1374005545400903112,
    4797064150266330468, 11965954173028437000, 13850575457860345913, 3896678283444637816,
    2703381831735298253, 8372559357887960475, 9198367089007964670, 12902972868363529835,
    16824817308954547425, 6982831182179772218, 10293142462923244110, 1651155165693576897,
    9459388698430067465, 2299645919409726049, 13245548231181497368, 7297485310556468383,
    10776145872710410804, 4783191940693840636, 17231202999976785147, 11770897226140515312,
    13857932523363874156]
    9223372036854775936 =
    [3323422767749570858, 2788302747609954213, 9415596417567295014, 12211896934279578532,
    8608250803546041136, 9597473161932499905, 15671283928864688989, 2771626831933963699,
    6604366642731928515, 7906112874678158510, 3930653719279701153, 7553725417172100141,
    2932979622703028190, 14266887676010279955, 4281798698451233201, 1243512632731824248,
    15688472212116049828, 4806591283017084441, 3773121743238258094, 12584383572937993847,
    686143120126891727, 3168599318620196775, 16414064355030880267, 6066399284526259210,
    13515244273910231729]"
  by (simp add: keccak_round_def theta_def theta_C_eval theta_D_eval theta_xor_eval rho_pi_eval chi_eval iota_def rol64_def)

lemma keccak_byte1_round_18:
  "keccak_round
    [3323422767749570858, 2788302747609954213, 9415596417567295014, 12211896934279578532,
    8608250803546041136, 9597473161932499905, 15671283928864688989, 2771626831933963699,
    6604366642731928515, 7906112874678158510, 3930653719279701153, 7553725417172100141,
    2932979622703028190, 14266887676010279955, 4281798698451233201, 1243512632731824248,
    15688472212116049828, 4806591283017084441, 3773121743238258094, 12584383572937993847,
    686143120126891727, 3168599318620196775, 16414064355030880267, 6066399284526259210,
    13515244273910231729]
    32778 =
    [14063283472070674631, 7544558825259234633, 12332394938113917536, 2688522779672643917,
    18165151216214920579, 9598140690229621869, 14203296747736859530, 13974276405556271977,
    4156084532800133920, 15928668882661600749, 8139685982037746005, 7852666795604818283,
    17837708255014057443, 9740910899837173238, 6118537882365480698, 4574428726943988599,
    1528559098700542202, 8731430325148297437, 11225580671713400312, 113783726197433907,
    1196774860649323732, 17887140583637527151, 2487056902779082022, 18349067446184537389,
    17782824587989560705]"
  by (simp add: keccak_round_def theta_def theta_C_eval theta_D_eval theta_xor_eval rho_pi_eval chi_eval iota_def rol64_def)

lemma keccak_byte1_round_19:
  "keccak_round
    [14063283472070674631, 7544558825259234633, 12332394938113917536, 2688522779672643917,
    18165151216214920579, 9598140690229621869, 14203296747736859530, 13974276405556271977,
    4156084532800133920, 15928668882661600749, 8139685982037746005, 7852666795604818283,
    17837708255014057443, 9740910899837173238, 6118537882365480698, 4574428726943988599,
    1528559098700542202, 8731430325148297437, 11225580671713400312, 113783726197433907,
    1196774860649323732, 17887140583637527151, 2487056902779082022, 18349067446184537389,
    17782824587989560705]
    9223372039002259466 =
    [14804979648553222297, 2464337461111363702, 8391117792514393862, 3962775583794466482,
    1596298644679417560, 3574938917183411239, 9216107399193008580, 5563301660738026781,
    14167441641637884589, 1157724782768555664, 17896602255574752999, 1250249211581887297,
    1261986587121229528, 17108392835773175201, 4124585270200961555, 2115420624762777686,
    13599647486980232082, 16778770360819873860, 9902982050913096731, 15112268560852827199,
    16108544839446110192, 4500606023391845994, 8061599846642067937, 2695923255919940410,
    10659561578100082753]"
  by (simp add: keccak_round_def theta_def theta_C_eval theta_D_eval theta_xor_eval rho_pi_eval chi_eval iota_def rol64_def)

lemma keccak_byte1_round_20:
  "keccak_round
    [14804979648553222297, 2464337461111363702, 8391117792514393862, 3962775583794466482,
    1596298644679417560, 3574938917183411239, 9216107399193008580, 5563301660738026781,
    14167441641637884589, 1157724782768555664, 17896602255574752999, 1250249211581887297,
    1261986587121229528, 17108392835773175201, 4124585270200961555, 2115420624762777686,
    13599647486980232082, 16778770360819873860, 9902982050913096731, 15112268560852827199,
    16108544839446110192, 4500606023391845994, 8061599846642067937, 2695923255919940410,
    10659561578100082753]
    9223372039002292353 =
    [11830248407821148076, 15382040638935619585, 10207246853403622791, 3187095557985047950,
    4114073325448751880, 5666422582721616473, 15096664712858039773, 15873886734160132072,
    16833354471907828922, 640185619238487292, 15230017610003757705, 718183883450794463,
    3189786693988316248, 2838847967747529063, 11877634080827291942, 3382071230348597877,
    10153626486558004198, 1076308447650584201, 17101343674919364112, 6296154097742936360,
    12195526831054541174, 16143343736706496389, 14634903868572823167, 5391029700166016302,
    16099926963809280995]"
  by (simp add: keccak_round_def theta_def theta_C_eval theta_D_eval theta_xor_eval rho_pi_eval chi_eval iota_def rol64_def)

lemma keccak_byte1_round_21:
  "keccak_round
    [11830248407821148076, 15382040638935619585, 10207246853403622791, 3187095557985047950,
    4114073325448751880, 5666422582721616473, 15096664712858039773, 15873886734160132072,
    16833354471907828922, 640185619238487292, 15230017610003757705, 718183883450794463,
    3189786693988316248, 2838847967747529063, 11877634080827291942, 3382071230348597877,
    10153626486558004198, 1076308447650584201, 17101343674919364112, 6296154097742936360,
    12195526831054541174, 16143343736706496389, 14634903868572823167, 5391029700166016302,
    16099926963809280995]
    9223372036854808704 =
    [7556457089494986821, 342996181224965198, 6311556462150297462, 4475252328725605208,
    17528327821415904650, 6109903548494272804, 7083228753956149944, 14843591970613058200,
    6643487775647699809, 9658775700078721729, 2872885533460751048, 17010145875950198465,
    6504051543572460723, 1748524858108721918, 5351437407900912495, 4721426627572182628,
    10686452764423412830, 13532329004975161887, 8989347765886243493, 5584680713847017241,
    4806073259910997583, 7222015722595947532, 12493962034980730380, 701956691648974718,
    11440044007110811860]"
  by (simp add: keccak_round_def theta_def theta_C_eval theta_D_eval theta_xor_eval rho_pi_eval chi_eval iota_def rol64_def)

lemma keccak_byte1_round_22:
  "keccak_round
    [7556457089494986821, 342996181224965198, 6311556462150297462, 4475252328725605208,
    17528327821415904650, 6109903548494272804, 7083228753956149944, 14843591970613058200,
    6643487775647699809, 9658775700078721729, 2872885533460751048, 17010145875950198465,
    6504051543572460723, 1748524858108721918, 5351437407900912495, 4721426627572182628,
    10686452764423412830, 13532329004975161887, 8989347765886243493, 5584680713847017241,
    4806073259910997583, 7222015722595947532, 12493962034980730380, 701956691648974718,
    11440044007110811860]
    2147483649 =
    [10466520670195706343, 1385551161053617458, 17471668386041792136, 17227960258006259959,
    9896894112152562698, 8011856035088184617, 4578510918150557311, 15790257760339785555,
    10566183800085102881, 2969332602733949532, 17503638974916590262, 2691023708666474504,
    1575572278635977885, 8062514794082014067, 16534200279782616547, 14336275308125048922,
    2826756936577174472, 4189286325336107331, 5911963217668419547, 13980758470548372133,
    14778519707937995209, 14567758517430112372, 9510945971549773200, 4425329954691557352,
    8436529914079327835]"
  by (simp add: keccak_round_def theta_def theta_C_eval theta_D_eval theta_xor_eval rho_pi_eval chi_eval iota_def rol64_def)

lemma keccak_byte1_round_23:
  "keccak_round
    [10466520670195706343, 1385551161053617458, 17471668386041792136, 17227960258006259959,
    9896894112152562698, 8011856035088184617, 4578510918150557311, 15790257760339785555,
    10566183800085102881, 2969332602733949532, 17503638974916590262, 2691023708666474504,
    1575572278635977885, 8062514794082014067, 16534200279782616547, 14336275308125048922,
    2826756936577174472, 4189286325336107331, 5911963217668419547, 13980758470548372133,
    14778519707937995209, 14567758517430112372, 9510945971549773200, 4425329954691557352,
    8436529914079327835]
    9223372039002292232 =
    [3367036551400384351, 13541896391517709985, 11748274897425326747, 15204113041948888973,
    9766314852883777818, 9708946880358333491, 3770118911043824938, 6454522794259883134,
    11741182863075146198, 11794897987885499520, 4534836497945071584, 12993095580047638545,
    2493651133644232209, 16297813332635149809, 7491788852102134692, 6992548572691831503,
    3826856354981368285, 14087698746143368610, 7696231868908907189, 17728723672206607872,
    6861539661657299923, 4745799509586690235, 3412166980305115124, 3750601696074520716,
    2255881592201032435]"
  by (simp add: keccak_round_def theta_def theta_C_eval theta_D_eval theta_xor_eval rho_pi_eval chi_eval iota_def rol64_def)

lemma keccak_byte1_permutation:
  "keccak_f1600
    [257, 0, 0, 0, 0, 0, 0, 0, 0, 0, 0, 0, 0, 0, 0, 0, 9223372036854775808, 0, 0, 0, 0, 0, 0, 0,
    0] =
    [3367036551400384351, 13541896391517709985, 11748274897425326747, 15204113041948888973,
    9766314852883777818, 9708946880358333491, 3770118911043824938, 6454522794259883134,
    11741182863075146198, 11794897987885499520, 4534836497945071584, 12993095580047638545,
    2493651133644232209, 16297813332635149809, 7491788852102134692, 6992548572691831503,
    3826856354981368285, 14087698746143368610, 7696231868908907189, 17728723672206607872,
    6861539661657299923, 4745799509586690235, 3412166980305115124, 3750601696074520716,
    2255881592201032435]"
  unfolding keccak_f1600_def keccak_RC_def foldl.simps
  by (simp only: keccak_byte1_round_0 keccak_byte1_round_1 keccak_byte1_round_2 keccak_byte1_round_3 keccak_byte1_round_4 keccak_byte1_round_5 keccak_byte1_round_6 keccak_byte1_round_7 keccak_byte1_round_8 keccak_byte1_round_9 keccak_byte1_round_10 keccak_byte1_round_11 keccak_byte1_round_12 keccak_byte1_round_13 keccak_byte1_round_14 keccak_byte1_round_15 keccak_byte1_round_16 keccak_byte1_round_17 keccak_byte1_round_18 keccak_byte1_round_19 keccak_byte1_round_20 keccak_byte1_round_21 keccak_byte1_round_22 keccak_byte1_round_23)

lemma keccak_byte1_squeeze:
  "be_nat (concat (map lane_bytes (take 4
    [3367036551400384351, 13541896391517709985, 11748274897425326747, 15204113041948888973,
    9766314852883777818, 9708946880358333491, 3770118911043824938, 6454522794259883134,
    11741182863075146198, 11794897987885499520, 4534836497945071584, 12993095580047638545,
    2493651133644232209, 16297813332635149809, 7491788852102134692, 6992548572691831503,
    3826856354981368285, 14087698746143368610, 7696231868908907189, 17728723672206607872,
    6861539661657299923, 4745799509586690235, 3412166980305115124, 3750601696074520716,
    2255881592201032435]))) =
    0x5fe7f977e71dba2ea1a68e21057beebb9be2ac30c6410aa38d4f3fbe41dcffd2"
  by (simp add: lane_bytes_def upt_8 be_nat_def)

lemma keccak_byte1_digest: "keccak256 [1] =
    0x5fe7f977e71dba2ea1a68e21057beebb9be2ac30c6410aa38d4f3fbe41dcffd2"
proof -
  have "length ([1] :: byte list) < 136" by simp
  then show ?thesis
    unfolding keccak256_single_block [OF \<open>length [1] < 136\<close>] keccak_byte1_block keccak_byte1_permutation keccak_byte1_squeeze
    by simp
qed

lemma keccak_key1_block: "block_lanes (keccak_pad (be_bytes 20 1)) =
    [0, 0, 4311744512, 0, 0, 0, 0, 0, 0, 0, 0, 0, 0, 0, 0, 0, 9223372036854775808, 0, 0, 0, 0,
    0, 0, 0, 0]"
  by code_simp

lemma keccak_key1_round_0:
  "keccak_round
    [0, 0, 4311744512, 0, 0, 0, 0, 0, 0, 0, 0, 0, 0, 0, 0, 0, 9223372036854775808, 0, 0, 0, 0,
    0, 0, 0, 0]
    1 =
    [4398046511104, 9042383626838048, 4398046511104, 9042383626829825, 8224,
    1157425104234217480, 17592186060864, 1152921504606846984, 4521191813431360,
    1152921504606846976, 144678155276255232, 32, 144678138029539328, 17246978048, 262176,
    8830452760576, 68719493120, 8830469603328, 16384, 68736319488, 2305843010291630080,
    2199031676928, 34493956096, 2305845209314885632, 34502377472]"
  by (simp add: keccak_round_def theta_def theta_C_eval theta_D_eval theta_xor_eval rho_pi_eval chi_eval iota_def rol64_def)

lemma keccak_key1_round_1:
  "keccak_round
    [4398046511104, 9042383626838048, 4398046511104, 9042383626829825, 8224,
    1157425104234217480, 17592186060864, 1152921504606846984, 4521191813431360,
    1152921504606846976, 144678155276255232, 32, 144678138029539328, 17246978048, 262176,
    8830452760576, 68719493120, 8830469603328, 16384, 68736319488, 2305843010291630080,
    2199031676928, 34493956096, 2305845209314885632, 34502377472]
    32898 =
    [1243681972261511170, 2739526272702399845, 3279220871513822532, 10827500025232679105,
    12574244022636532833, 1419695877492057795, 16847066816346180491, 10528054597906796560,
    5306338507971733514, 16736505147799459096, 4919180494300529784, 294852115156198352,
    16788644882513429529, 4045996932124135732, 9291107663321035653, 13147749327979938056,
    12629865771471160224, 6359702072691699224, 14514052120975606064, 7329955291335872,
    15136638093757522006, 3303400284973524753, 3609741424615427590, 9926220167410894849,
    8958030440198244192]"
  by (simp add: keccak_round_def theta_def theta_C_eval theta_D_eval theta_xor_eval rho_pi_eval chi_eval iota_def rol64_def)

lemma keccak_key1_round_2:
  "keccak_round
    [1243681972261511170, 2739526272702399845, 3279220871513822532, 10827500025232679105,
    12574244022636532833, 1419695877492057795, 16847066816346180491, 10528054597906796560,
    5306338507971733514, 16736505147799459096, 4919180494300529784, 294852115156198352,
    16788644882513429529, 4045996932124135732, 9291107663321035653, 13147749327979938056,
    12629865771471160224, 6359702072691699224, 14514052120975606064, 7329955291335872,
    15136638093757522006, 3303400284973524753, 3609741424615427590, 9926220167410894849,
    8958030440198244192]
    9223372036854808714 =
    [13330357832081115336, 14280363658618885433, 4848503035404887059, 9175649110413549015,
    9757935818944045850, 8414957422497066678, 17682908728963115680, 7450353798375427345,
    11824813110711599104, 9766563011227024578, 7590583297778877722, 7009410714471628837,
    18289609042796209767, 16666892908298223786, 14759727960327187222, 11956936335113594820,
    7459792879187398032, 11722742237910371, 1838691352696023886, 12808318685537907523,
    10355825742639258997, 17349172537405808857, 9239700546284214905, 781268609581617593,
    11951538741462841673]"
  by (simp add: keccak_round_def theta_def theta_C_eval theta_D_eval theta_xor_eval rho_pi_eval chi_eval iota_def rol64_def)

lemma keccak_key1_round_3:
  "keccak_round
    [13330357832081115336, 14280363658618885433, 4848503035404887059, 9175649110413549015,
    9757935818944045850, 8414957422497066678, 17682908728963115680, 7450353798375427345,
    11824813110711599104, 9766563011227024578, 7590583297778877722, 7009410714471628837,
    18289609042796209767, 16666892908298223786, 14759727960327187222, 11956936335113594820,
    7459792879187398032, 11722742237910371, 1838691352696023886, 12808318685537907523,
    10355825742639258997, 17349172537405808857, 9239700546284214905, 781268609581617593,
    11951538741462841673]
    9223372039002292224 =
    [5370890727440962551, 6862277309868169703, 7745333284591515655, 16505199343756531022,
    13014958602681198896, 259966888747890331, 14750686602216826147, 16019066450995785995,
    2456712969150531921, 17248270895413248403, 11641666176168384869, 12229854325326102207,
    8425535968690699613, 1926253143435766437, 1864018753942933512, 7014057033927657465,
    7411475634490397221, 13299814793989860218, 5248103583816345954, 5290180938589014888,
    13128496520602998621, 12377744577115160796, 12329619927407320361, 8642855918458159967,
    8769217356826371913]"
  by (simp add: keccak_round_def theta_def theta_C_eval theta_D_eval theta_xor_eval rho_pi_eval chi_eval iota_def rol64_def)

lemma keccak_key1_round_4:
  "keccak_round
    [5370890727440962551, 6862277309868169703, 7745333284591515655, 16505199343756531022,
    13014958602681198896, 259966888747890331, 14750686602216826147, 16019066450995785995,
    2456712969150531921, 17248270895413248403, 11641666176168384869, 12229854325326102207,
    8425535968690699613, 1926253143435766437, 1864018753942933512, 7014057033927657465,
    7411475634490397221, 13299814793989860218, 5248103583816345954, 5290180938589014888,
    13128496520602998621, 12377744577115160796, 12329619927407320361, 8642855918458159967,
    8769217356826371913]
    32907 =
    [9096601057933992665, 6237750148835058644, 17915796645290327230, 13569429142635374503,
    2938407297732671925, 17820521332705919351, 16335418965451289284, 8705188792412562881,
    4850862308159681639, 10630529068726838292, 17077066046525415583, 152077399321875567,
    14346398596782016545, 1784099095960286662, 13359560115020016557, 3914201288577350258,
    14929521605891646675, 17406302988441249003, 1990003638410659656, 9826885061834145001,
    5050401743472407904, 2787415885036866577, 3657480101624014099, 284964255891964899,
    16413214323661794113]"
  by (simp add: keccak_round_def theta_def theta_C_eval theta_D_eval theta_xor_eval rho_pi_eval chi_eval iota_def rol64_def)

lemma keccak_key1_round_5:
  "keccak_round
    [9096601057933992665, 6237750148835058644, 17915796645290327230, 13569429142635374503,
    2938407297732671925, 17820521332705919351, 16335418965451289284, 8705188792412562881,
    4850862308159681639, 10630529068726838292, 17077066046525415583, 152077399321875567,
    14346398596782016545, 1784099095960286662, 13359560115020016557, 3914201288577350258,
    14929521605891646675, 17406302988441249003, 1990003638410659656, 9826885061834145001,
    5050401743472407904, 2787415885036866577, 3657480101624014099, 284964255891964899,
    16413214323661794113]
    2147483649 =
    [12176055414582102023, 11374596704721307106, 3482957305672112579, 1191222399711364319,
    13282080707296758790, 14342670690383312170, 18327136591521281785, 16407551072446091937,
    9628303569996626775, 9950142701056695099, 5125404050827325309, 180470778263980530,
    6041546311221097467, 6615746961834483324, 10404963820051629014, 2944396718244090047,
    11851145806281804542, 11051831543367275646, 7587609863359196306, 14517333591349203664,
    2771302972166100338, 10271423846433857169, 12699593755311312637, 16717740810675539300,
    3233010632842841981]"
  by (simp add: keccak_round_def theta_def theta_C_eval theta_D_eval theta_xor_eval rho_pi_eval chi_eval iota_def rol64_def)

lemma keccak_key1_round_6:
  "keccak_round
    [12176055414582102023, 11374596704721307106, 3482957305672112579, 1191222399711364319,
    13282080707296758790, 14342670690383312170, 18327136591521281785, 16407551072446091937,
    9628303569996626775, 9950142701056695099, 5125404050827325309, 180470778263980530,
    6041546311221097467, 6615746961834483324, 10404963820051629014, 2944396718244090047,
    11851145806281804542, 11051831543367275646, 7587609863359196306, 14517333591349203664,
    2771302972166100338, 10271423846433857169, 12699593755311312637, 16717740810675539300,
    3233010632842841981]
    9223372039002292353 =
    [17886856407493185049, 8810492962839104770, 8336102541479484439, 12434992766931531054,
    9012236811321420748, 14278002276909684706, 15396852850020618499, 10866619548986481081,
    15225220159246900586, 18164975360236798990, 17822202469991725223, 14567860125924319309,
    9897014729899574350, 13976538552637181003, 3365782575719045174, 17161919072371272546,
    816308774884260627, 15294406300803805413, 5101220135359645249, 17517402482612850540,
    7063111479475370704, 16201810770987608149, 15164292045754083302, 13847385724074263556,
    7610414820278744290]"
  by (simp add: keccak_round_def theta_def theta_C_eval theta_D_eval theta_xor_eval rho_pi_eval chi_eval iota_def rol64_def)

lemma keccak_key1_round_7:
  "keccak_round
    [17886856407493185049, 8810492962839104770, 8336102541479484439, 12434992766931531054,
    9012236811321420748, 14278002276909684706, 15396852850020618499, 10866619548986481081,
    15225220159246900586, 18164975360236798990, 17822202469991725223, 14567860125924319309,
    9897014729899574350, 13976538552637181003, 3365782575719045174, 17161919072371272546,
    816308774884260627, 15294406300803805413, 5101220135359645249, 17517402482612850540,
    7063111479475370704, 16201810770987608149, 15164292045754083302, 13847385724074263556,
    7610414820278744290]
    9223372036854808585 =
    [4805007230662971455, 2613077673957151637, 3710411702824316597, 11871332500146642206,
    47202296794002543, 14401137298669190192, 10025723073592189198, 17787078573846200009,
    3946364831957303808, 977352708064651649, 6297835996595159668, 6515882443821963738,
    9495193976244154189, 15658132061788109312, 1292505316075480894, 1619889881790293670,
    4160725578205451909, 7007727461437273453, 2474348636612171662, 4197372482904040843,
    7140642078910496708, 18363884061654626257, 487286159098085607, 7345401250386599294,
    6511640622030034428]"
  by (simp add: keccak_round_def theta_def theta_C_eval theta_D_eval theta_xor_eval rho_pi_eval chi_eval iota_def rol64_def)

lemma keccak_key1_round_8:
  "keccak_round
    [4805007230662971455, 2613077673957151637, 3710411702824316597, 11871332500146642206,
    47202296794002543, 14401137298669190192, 10025723073592189198, 17787078573846200009,
    3946364831957303808, 977352708064651649, 6297835996595159668, 6515882443821963738,
    9495193976244154189, 15658132061788109312, 1292505316075480894, 1619889881790293670,
    4160725578205451909, 7007727461437273453, 2474348636612171662, 4197372482904040843,
    7140642078910496708, 18363884061654626257, 487286159098085607, 7345401250386599294,
    6511640622030034428]
    138 =
    [6465948733996464684, 339272971148114880, 3196614321732704215, 14174069451376885512,
    12378345264791439171, 11157517442642886863, 10140264876745092645, 8843310420172320714,
    16635065223103329271, 14238476161114855349, 1365750696047865021, 7269551612044562487,
    4112203088495110011, 3473920555683304888, 12290649431730416693, 6278672835470438710,
    17987777122759112788, 17351273821808510649, 1994534591026046872, 3115562033936006402,
    147803584748046799, 16931090950654731943, 16704362337252516800, 17446186381921534094,
    10471053523430281432]"
  by (simp add: keccak_round_def theta_def theta_C_eval theta_D_eval theta_xor_eval rho_pi_eval chi_eval iota_def rol64_def)

lemma keccak_key1_round_9:
  "keccak_round
    [6465948733996464684, 339272971148114880, 3196614321732704215, 14174069451376885512,
    12378345264791439171, 11157517442642886863, 10140264876745092645, 8843310420172320714,
    16635065223103329271, 14238476161114855349, 1365750696047865021, 7269551612044562487,
    4112203088495110011, 3473920555683304888, 12290649431730416693, 6278672835470438710,
    17987777122759112788, 17351273821808510649, 1994534591026046872, 3115562033936006402,
    147803584748046799, 16931090950654731943, 16704362337252516800, 17446186381921534094,
    10471053523430281432]
    136 =
    [15880375946525417342, 8325991989558884719, 12831821365642977986, 7107665124876715739,
    10889584143721642229, 4169399676494169126, 17347604252639785462, 13900504140060204988,
    311236251002278924, 11084894506440515928, 12369234656017173137, 501184917212104388,
    1002737074814257445, 4064159232904125545, 7009061554737258319, 4411460024359640640,
    4817219177368409730, 10988785250886925006, 3899072701400087639, 16407165212500459019,
    5317544015059561557, 11833768410444751520, 12872892730136506410, 14424266182224443952,
    15744072721051807834]"
  by (simp add: keccak_round_def theta_def theta_C_eval theta_D_eval theta_xor_eval rho_pi_eval chi_eval iota_def rol64_def)

lemma keccak_key1_round_10:
  "keccak_round
    [15880375946525417342, 8325991989558884719, 12831821365642977986, 7107665124876715739,
    10889584143721642229, 4169399676494169126, 17347604252639785462, 13900504140060204988,
    311236251002278924, 11084894506440515928, 12369234656017173137, 501184917212104388,
    1002737074814257445, 4064159232904125545, 7009061554737258319, 4411460024359640640,
    4817219177368409730, 10988785250886925006, 3899072701400087639, 16407165212500459019,
    5317544015059561557, 11833768410444751520, 12872892730136506410, 14424266182224443952,
    15744072721051807834]
    2147516425 =
    [14800878706400912363, 9141674480403519488, 18340075007129078293, 6939360438513095976,
    4542943387520257996, 4330323265954925234, 16162992643843869360, 16096477516431875801,
    15574707942042474308, 1322808986218658424, 11354244025966063388, 2621958057202898488,
    6615014231848886711, 6477586235056284351, 5329649744015947538, 17964248654031232582,
    2076043471570365669, 14421342449159215704, 15563477806977634622, 16943557589091557524,
    11826053004838806467, 13004982395293314607, 9248589729391466400, 18072412997118060305,
    10967939972934925364]"
  by (simp add: keccak_round_def theta_def theta_C_eval theta_D_eval theta_xor_eval rho_pi_eval chi_eval iota_def rol64_def)

lemma keccak_key1_round_11:
  "keccak_round
    [14800878706400912363, 9141674480403519488, 18340075007129078293, 6939360438513095976,
    4542943387520257996, 4330323265954925234, 16162992643843869360, 16096477516431875801,
    15574707942042474308, 1322808986218658424, 11354244025966063388, 2621958057202898488,
    6615014231848886711, 6477586235056284351, 5329649744015947538, 17964248654031232582,
    2076043471570365669, 14421342449159215704, 15563477806977634622, 16943557589091557524,
    11826053004838806467, 13004982395293314607, 9248589729391466400, 18072412997118060305,
    10967939972934925364]
    2147483658 =
    [17009063736677497333, 406989061692290121, 13133735125656272126, 6623340916437690774,
    16561331298023639549, 15183797754087603952, 3866403131313871004, 1469257901911530101,
    1032450421630124375, 5504529943416206989, 15538346122956277700, 8600045151899687057,
    9683204302475083483, 11564197318330796364, 3895717024873776263, 10118152364038177874,
    9137182428097933466, 16758762545865800167, 16984021715006238105, 17249626862646219043,
    10765357262651939455, 13975235525046463625, 14468167137410023575, 13005702559034214844,
    16509068352677295655]"
  by (simp add: keccak_round_def theta_def theta_C_eval theta_D_eval theta_xor_eval rho_pi_eval chi_eval iota_def rol64_def)

lemma keccak_key1_round_12:
  "keccak_round
    [17009063736677497333, 406989061692290121, 13133735125656272126, 6623340916437690774,
    16561331298023639549, 15183797754087603952, 3866403131313871004, 1469257901911530101,
    1032450421630124375, 5504529943416206989, 15538346122956277700, 8600045151899687057,
    9683204302475083483, 11564197318330796364, 3895717024873776263, 10118152364038177874,
    9137182428097933466, 16758762545865800167, 16984021715006238105, 17249626862646219043,
    10765357262651939455, 13975235525046463625, 14468167137410023575, 13005702559034214844,
    16509068352677295655]
    2147516555 =
    [5597568238991195427, 3482138887195461240, 5687810624021898824, 5872140876449880062,
    18019113948289542537, 835342122666585959, 8846616478792639499, 13653377196444646581,
    5165340477847590662, 2078220797750486138, 1893401611847660235, 153506400272518351,
    16237139957097505486, 13797721524569457390, 172093044613827972, 8235685794207967743,
    9662308809157727841, 15898471478766644796, 8153463567420466066, 18342020426410003985,
    1352178593737699967, 12182509771746577020, 11111991285008139621, 16254684792134968382,
    3417061818467010708]"
  by (simp add: keccak_round_def theta_def theta_C_eval theta_D_eval theta_xor_eval rho_pi_eval chi_eval iota_def rol64_def)

lemma keccak_key1_round_13:
  "keccak_round
    [5597568238991195427, 3482138887195461240, 5687810624021898824, 5872140876449880062,
    18019113948289542537, 835342122666585959, 8846616478792639499, 13653377196444646581,
    5165340477847590662, 2078220797750486138, 1893401611847660235, 153506400272518351,
    16237139957097505486, 13797721524569457390, 172093044613827972, 8235685794207967743,
    9662308809157727841, 15898471478766644796, 8153463567420466066, 18342020426410003985,
    1352178593737699967, 12182509771746577020, 11111991285008139621, 16254684792134968382,
    3417061818467010708]
    9223372036854775947 =
    [8055807708498843545, 11798356666819101264, 5531056576067864935, 16978855265395325713,
    2058034131754597287, 14426766927264352090, 12949774433353323023, 1411921006937665359,
    684339115913386759, 2465558284416268179, 710683235196384275, 2460907921214401698,
    7199927219483920759, 4342488255006876152, 4324568932951190449, 1157366630562605938,
    2657154012718123907, 7074638080678775347, 4051091563246307216, 11254301894887856379,
    8383550426652182524, 14716698278502175556, 15546267868730848579, 10254588120461871584,
    8430980941935494812]"
  by (simp add: keccak_round_def theta_def theta_C_eval theta_D_eval theta_xor_eval rho_pi_eval chi_eval iota_def rol64_def)

lemma keccak_key1_round_14:
  "keccak_round
    [8055807708498843545, 11798356666819101264, 5531056576067864935, 16978855265395325713,
    2058034131754597287, 14426766927264352090, 12949774433353323023, 1411921006937665359,
    684339115913386759, 2465558284416268179, 710683235196384275, 2460907921214401698,
    7199927219483920759, 4342488255006876152, 4324568932951190449, 1157366630562605938,
    2657154012718123907, 7074638080678775347, 4051091563246307216, 11254301894887856379,
    8383550426652182524, 14716698278502175556, 15546267868730848579, 10254588120461871584,
    8430980941935494812]
    9223372036854808713 =
    [7038006020066469543, 841265588947637961, 12512090306328945896, 9911051743844418094,
    17598861186161439360, 5710586965396195757, 9959084835958629128, 9710399861894481378,
    14154900582421676041, 4293803395350432712, 16663504266219016490, 3395955050044348966,
    12448129657577714970, 7884641874233232480, 13464773724161551094, 10247235203677702941,
    17334193285943890207, 5217982092338955906, 10703218045164908688, 7699543610827807208,
    15612241553242833048, 3931142817968161210, 13822246691881502976, 14043712468672424910,
    8514994430983392880]"
  by (simp add: keccak_round_def theta_def theta_C_eval theta_D_eval theta_xor_eval rho_pi_eval chi_eval iota_def rol64_def)

lemma keccak_key1_round_15:
  "keccak_round
    [7038006020066469543, 841265588947637961, 12512090306328945896, 9911051743844418094,
    17598861186161439360, 5710586965396195757, 9959084835958629128, 9710399861894481378,
    14154900582421676041, 4293803395350432712, 16663504266219016490, 3395955050044348966,
    12448129657577714970, 7884641874233232480, 13464773724161551094, 10247235203677702941,
    17334193285943890207, 5217982092338955906, 10703218045164908688, 7699543610827807208,
    15612241553242833048, 3931142817968161210, 13822246691881502976, 14043712468672424910,
    8514994430983392880]
    9223372036854808579 =
    [6367567864993147414, 16465333287992230150, 2396321050631043736, 6236718352976568935,
    15153128420812525261, 6061734438725311102, 206181670704353311, 17910365200004370242,
    756145039558109326, 572645201262476047, 16163818101128719317, 16626598898018237602,
    4659182256623247877, 7390457644192993970, 14643091065969149282, 14417606144552184899,
    17154131933854050827, 9694938357286735208, 14706463364597247895, 3921491309173616676,
    1022537058457500770, 15839891075190536169, 14629472700363936745, 3491402614470168099,
    14388531002515312484]"
  by (simp add: keccak_round_def theta_def theta_C_eval theta_D_eval theta_xor_eval rho_pi_eval chi_eval iota_def rol64_def)

lemma keccak_key1_round_16:
  "keccak_round
    [6367567864993147414, 16465333287992230150, 2396321050631043736, 6236718352976568935,
    15153128420812525261, 6061734438725311102, 206181670704353311, 17910365200004370242,
    756145039558109326, 572645201262476047, 16163818101128719317, 16626598898018237602,
    4659182256623247877, 7390457644192993970, 14643091065969149282, 14417606144552184899,
    17154131933854050827, 9694938357286735208, 14706463364597247895, 3921491309173616676,
    1022537058457500770, 15839891075190536169, 14629472700363936745, 3491402614470168099,
    14388531002515312484]
    9223372036854808578 =
    [6656489761723548999, 11443725959283372810, 1266665726036349219, 11180108512704974171,
    10163216082089570146, 6738567557198586419, 11890334009073011493, 5412345954202037307,
    10375568625787565773, 14854304110403412941, 6810208580872927819, 7977192025034657968,
    1586096213849658908, 5408202398570865634, 11704985018693725465, 18353448529277825875,
    10532339313091422794, 7035977139088166293, 16785267012387941786, 13578735635219973528,
    17746758068697783495, 12574650144449422718, 5808551208671196804, 8111610611723747107,
    7514789492357667641]"
  by (simp add: keccak_round_def theta_def theta_C_eval theta_D_eval theta_xor_eval rho_pi_eval chi_eval iota_def rol64_def)

lemma keccak_key1_round_17:
  "keccak_round
    [6656489761723548999, 11443725959283372810, 1266665726036349219, 11180108512704974171,
    10163216082089570146, 6738567557198586419, 11890334009073011493, 5412345954202037307,
    10375568625787565773, 14854304110403412941, 6810208580872927819, 7977192025034657968,
    1586096213849658908, 5408202398570865634, 11704985018693725465, 18353448529277825875,
    10532339313091422794, 7035977139088166293, 16785267012387941786, 13578735635219973528,
    17746758068697783495, 12574650144449422718, 5808551208671196804, 8111610611723747107,
    7514789492357667641]
    9223372036854775936 =
    [2070022838675013000, 15694148322712936912, 15357397656356407372, 10515560046270514365,
    16376082729473441875, 979151899792090293, 12210490724722959943, 15208572279773778119,
    14844242460300748869, 3938203480631724756, 17661572344068743942, 907513781377401711,
    11336095281883685498, 12855853615495938752, 12431707399903724067, 14741045292261198488,
    16177263456526387517, 2428203476783069977, 10655138945365623561, 3038504651731009076,
    18288449059529321092, 9208283298367774143, 8156234052986511588, 12793099334430730323,
    861281023826545364]"
  by (simp add: keccak_round_def theta_def theta_C_eval theta_D_eval theta_xor_eval rho_pi_eval chi_eval iota_def rol64_def)

lemma keccak_key1_round_18:
  "keccak_round
    [2070022838675013000, 15694148322712936912, 15357397656356407372, 10515560046270514365,
    16376082729473441875, 979151899792090293, 12210490724722959943, 15208572279773778119,
    14844242460300748869, 3938203480631724756, 17661572344068743942, 907513781377401711,
    11336095281883685498, 12855853615495938752, 12431707399903724067, 14741045292261198488,
    16177263456526387517, 2428203476783069977, 10655138945365623561, 3038504651731009076,
    18288449059529321092, 9208283298367774143, 8156234052986511588, 12793099334430730323,
    861281023826545364]
    32778 =
    [10580687395187368247, 12675203637494161203, 13249378502983647285, 6937446798113671868,
    9311204380971519806, 12709098756001668575, 9017666337791227953, 6497072626008184248,
    8674042904373577580, 3215516847607008619, 4254332945721832205, 17441036682463577895,
    17922470803329335891, 4082236949344512022, 7900968629432713892, 15861856744875907780,
    8321425383614001963, 7278539766778922297, 10720844775115799802, 17606824097814990232,
    18048873073832625624, 7637565706626014859, 7249263156555379552, 11798501547642819627,
    17721413892678257668]"
  by (simp add: keccak_round_def theta_def theta_C_eval theta_D_eval theta_xor_eval rho_pi_eval chi_eval iota_def rol64_def)

lemma keccak_key1_round_19:
  "keccak_round
    [10580687395187368247, 12675203637494161203, 13249378502983647285, 6937446798113671868,
    9311204380971519806, 12709098756001668575, 9017666337791227953, 6497072626008184248,
    8674042904373577580, 3215516847607008619, 4254332945721832205, 17441036682463577895,
    17922470803329335891, 4082236949344512022, 7900968629432713892, 15861856744875907780,
    8321425383614001963, 7278539766778922297, 10720844775115799802, 17606824097814990232,
    18048873073832625624, 7637565706626014859, 7249263156555379552, 11798501547642819627,
    17721413892678257668]
    9223372039002259466 =
    [14697808791201046346, 10659033189701210635, 9127643301611218739, 7717357400554239698,
    13481745928190781409, 1219084334639910446, 18088620900590340358, 4256606146559701852,
    3802034514920211959, 9305343244087622936, 7452499900505402249, 16761433441550059855,
    3755851481060880963, 8986052247332945180, 11306959023664642313, 3230821474613591242,
    8337425022209454818, 13469582081024803380, 12651224240973147226, 2671850872414481367,
    5665102527233385866, 1835121605063841026, 10676258658790715727, 10772943195908486621,
    17176471064097990113]"
  by (simp add: keccak_round_def theta_def theta_C_eval theta_D_eval theta_xor_eval rho_pi_eval chi_eval iota_def rol64_def)

lemma keccak_key1_round_20:
  "keccak_round
    [14697808791201046346, 10659033189701210635, 9127643301611218739, 7717357400554239698,
    13481745928190781409, 1219084334639910446, 18088620900590340358, 4256606146559701852,
    3802034514920211959, 9305343244087622936, 7452499900505402249, 16761433441550059855,
    3755851481060880963, 8986052247332945180, 11306959023664642313, 3230821474613591242,
    8337425022209454818, 13469582081024803380, 12651224240973147226, 2671850872414481367,
    5665102527233385866, 1835121605063841026, 10676258658790715727, 10772943195908486621,
    17176471064097990113]
    9223372039002292353 =
    [17460020796643200344, 18158594696361552619, 12223877284339217498, 13765479018432131518,
    6118073374104170709, 732382945579485472, 16870897647744108085, 17616481395967752308,
    12758416719466458452, 14450039058396149607, 16586059041775530007, 15513534450218586296,
    1574918890796158904, 2603578080252597377, 14405042089651312926, 5007790154940761461,
    11521767884195396514, 13311041142595483147, 3906160665870807381, 11426009343244001273,
    7583360356482658099, 8969001301013500295, 1501021156357013709, 16419474604833909589,
    8094126299075797121]"
  by (simp add: keccak_round_def theta_def theta_C_eval theta_D_eval theta_xor_eval rho_pi_eval chi_eval iota_def rol64_def)

lemma keccak_key1_round_21:
  "keccak_round
    [17460020796643200344, 18158594696361552619, 12223877284339217498, 13765479018432131518,
    6118073374104170709, 732382945579485472, 16870897647744108085, 17616481395967752308,
    12758416719466458452, 14450039058396149607, 16586059041775530007, 15513534450218586296,
    1574918890796158904, 2603578080252597377, 14405042089651312926, 5007790154940761461,
    11521767884195396514, 13311041142595483147, 3906160665870807381, 11426009343244001273,
    7583360356482658099, 8969001301013500295, 1501021156357013709, 16419474604833909589,
    8094126299075797121]
    9223372036854808704 =
    [11106815170457748632, 16657627615202673388, 4551844387425117940, 8874465938196798336,
    5603224905682034950, 3555934284781245777, 7765411576254902384, 10670870014776305769,
    11361857241118342174, 8868665933953322605, 13069014757126454579, 432878217402185738,
    12459952471949948861, 5172773927335286913, 6256833348038354506, 7210730189123830726,
    11660890562122247836, 13926351315054674339, 96567244246938120, 3291413904977075981,
    13651096226197254451, 14960886890131533657, 7096269753943446667, 18303303339724116021,
    6353810884016642674]"
  by (simp add: keccak_round_def theta_def theta_C_eval theta_D_eval theta_xor_eval rho_pi_eval chi_eval iota_def rol64_def)

lemma keccak_key1_round_22:
  "keccak_round
    [11106815170457748632, 16657627615202673388, 4551844387425117940, 8874465938196798336,
    5603224905682034950, 3555934284781245777, 7765411576254902384, 10670870014776305769,
    11361857241118342174, 8868665933953322605, 13069014757126454579, 432878217402185738,
    12459952471949948861, 5172773927335286913, 6256833348038354506, 7210730189123830726,
    11660890562122247836, 13926351315054674339, 96567244246938120, 3291413904977075981,
    13651096226197254451, 14960886890131533657, 7096269753943446667, 18303303339724116021,
    6353810884016642674]
    2147483649 =
    [15200658692406106376, 7740823874982353043, 12805307584080592840, 10555618634528574174,
    15314693570288280234, 5943962880290176515, 14822482731644238194, 5670043327906457280,
    12479568063539094820, 12384101911932943591, 14788023107562375660, 2390329453174095703,
    18109800712196182809, 4100704115266959837, 15336889541547643101, 9696068994260968067,
    2759557146819186893, 15638872177329890086, 7512337833667480683, 9327307791075565856,
    15648970611536119274, 16084996881265697453, 5026786615340036482, 1404274499164542633,
    9134847831049497]"
  by (simp add: keccak_round_def theta_def theta_C_eval theta_D_eval theta_xor_eval rho_pi_eval chi_eval iota_def rol64_def)

lemma keccak_key1_round_23:
  "keccak_round
    [15200658692406106376, 7740823874982353043, 12805307584080592840, 10555618634528574174,
    15314693570288280234, 5943962880290176515, 14822482731644238194, 5670043327906457280,
    12479568063539094820, 12384101911932943591, 14788023107562375660, 2390329453174095703,
    18109800712196182809, 4100704115266959837, 15336889541547643101, 9696068994260968067,
    2759557146819186893, 15638872177329890086, 7512337833667480683, 9327307791075565856,
    15648970611536119274, 16084996881265697453, 5026786615340036482, 1404274499164542633,
    9134847831049497]
    9223372039002292232 =
    [9370919172238239764, 17874834069691387050, 391861440329619985, 9022236966867978069,
    9759373552182171590, 10687496010158353586, 2376958330924908224, 539096730584471499,
    1014801882589232756, 17358756654494894807, 13611250172102983716, 13873369650274807347,
    5259797171492586718, 15108028772269267449, 16507179026058349789, 11760735829884358273,
    8289677931344060694, 4703394358374467720, 9486422140721671007, 2185960167976946395,
    9765912034291951284, 8408230865004649428, 9979855085950805430, 10566549601181660548,
    10405583678839119971]"
  by (simp add: keccak_round_def theta_def theta_C_eval theta_D_eval theta_xor_eval rho_pi_eval chi_eval iota_def rol64_def)

lemma keccak_key1_permutation:
  "keccak_f1600
    [0, 0, 4311744512, 0, 0, 0, 0, 0, 0, 0, 0, 0, 0, 0, 0, 0, 9223372036854775808, 0, 0, 0, 0,
    0, 0, 0, 0] =
    [9370919172238239764, 17874834069691387050, 391861440329619985, 9022236966867978069,
    9759373552182171590, 10687496010158353586, 2376958330924908224, 539096730584471499,
    1014801882589232756, 17358756654494894807, 13611250172102983716, 13873369650274807347,
    5259797171492586718, 15108028772269267449, 16507179026058349789, 11760735829884358273,
    8289677931344060694, 4703394358374467720, 9486422140721671007, 2185960167976946395,
    9765912034291951284, 8408230865004649428, 9979855085950805430, 10566549601181660548,
    10405583678839119971]"
  unfolding keccak_f1600_def keccak_RC_def foldl.simps
  by (simp only: keccak_key1_round_0 keccak_key1_round_1 keccak_key1_round_2 keccak_key1_round_3 keccak_key1_round_4 keccak_key1_round_5 keccak_key1_round_6 keccak_key1_round_7 keccak_key1_round_8 keccak_key1_round_9 keccak_key1_round_10 keccak_key1_round_11 keccak_key1_round_12 keccak_key1_round_13 keccak_key1_round_14 keccak_key1_round_15 keccak_key1_round_16 keccak_key1_round_17 keccak_key1_round_18 keccak_key1_round_19 keccak_key1_round_20 keccak_key1_round_21 keccak_key1_round_22 keccak_key1_round_23)

lemma keccak_key1_squeeze:
  "be_nat (concat (map lane_bytes (take 4
    [9370919172238239764, 17874834069691387050, 391861440329619985, 9022236966867978069,
    9759373552182171590, 10687496010158353586, 2376958330924908224, 539096730584471499,
    1014801882589232756, 17358756654494894807, 13611250172102983716, 13873369650274807347,
    5259797171492586718, 15108028772269267449, 16507179026058349789, 11760735829884358273,
    8289677931344060694, 4703394358374467720, 9486422140721671007, 2185960167976946395,
    9765912034291951284, 8408230865004649428, 9979855085950805430, 10566549601181660548,
    10405583678839119971]))) =
    0x1468288056310c82aa4c01a7e12a10f8111a0560e72b700555479031b86c357d"
  by (simp add: lane_bytes_def upt_8 be_nat_def)

lemma keccak_key1_digest: "keccak256 (be_bytes 20 1) =
    0x1468288056310c82aa4c01a7e12a10f8111a0560e72b700555479031b86c357d"
proof -
  have "length (be_bytes 20 1 :: byte list) < 136" by simp
  then show ?thesis
    unfolding keccak256_single_block [OF \<open>length (be_bytes 20 1) < 136\<close>] keccak_key1_block keccak_key1_permutation keccak_key1_squeeze
    by simp
qed
section \<open>Properties of the group registry\<close>

lemma allowMessages_fields:
  "groups (allowMessages ms a s) = groups s"
  "groupMessages (allowMessages ms a s) = groupMessages s"
  "events (allowMessages ms a s) = events s"
  by (induction ms arbitrary: s) (simp_all add: FHE_allow_def)

lemma allowMessages_acl:
  "acl (allowMessages ms a s) = acl s \<union> (\<lambda>m. (encryptedContent m, a)) ` set ms"
  by (induction ms arbitrary: s) (auto simp: FHE_allow_def)

lemma allowMembers_fields:
  "groups (allowMembers h as s) = groups s"
  "groupMessages (allowMembers h as s) = groupMessages s"
  "events (allowMembers h as s) = events s"
  by (induction as arbitrary: s) (simp_all add: FHE_allow_def)

lemma allowMembers_acl:
  "acl (allowMembers h as s) = acl s \<union> (\<lambda>a. (h, a)) ` set as"
  by (induction as arbitrary: s) (auto simp: FHE_allow_def)

text \<open>
  Claim C1 (retroactive grant on join). For a valid group and a sender who is not yet a
  member, \<open>joinGroup\<close> succeeds; in the new state the sender is appended to the
  group's members, \<open>canDecryptGroupKey\<close> is true for the sender, the messages of the
  group are the ones that existed, and \<open>canDecryptMessage\<close> is true for the sender at
  every index of an existing message.
\<close>

theorem joinGroup_retroactive_grant:
  assumes "validGroup groupId s"
    and "\<not> isMember (groups s ! unat groupId) (msg_sender e)"
  shows "\<exists>s'. joinGroup e groupId s = Inr s'
     \<and> members (groups s' ! unat groupId) = members (groups s ! unat groupId) @ [msg_sender e]
     \<and> canDecryptGroupKey groupId (msg_sender e) s' = Inr True
     \<and> groupMessages s' groupId = groupMessages s groupId
     \<and> (\<forall>i. unat i < length (groupMessages s groupId)
            \<longrightarrow> canDecryptMessage groupId i (msg_sender e) s' = Inr True)"
  using assms
  by (simp add: joinGroup_def Let_def validGroup_def canDecryptGroupKey_def canDecryptMessage_def
      FHE_isAllowed_def FHE_allow_def allowMessages_fields allowMessages_acl)

text \<open>
  Claim C2 (forward grant on send). For a valid group and a sender who is a member,
  once the encryption library has accepted the ciphertext and its proof and returned
  the handle \<open>h\<close>, \<open>sendMessage\<close> succeeds; it appends exactly one message record,
  with the sender as \<open>sender\<close> and \<open>h\<close> as content, and \<open>canDecryptMessage\<close> is true
  at the new message's index for every member of the group at the time of the call.
\<close>

theorem sendMessage_forward_grant:
  assumes "validGroup groupId s"
    and "isMember (groups s ! unat groupId) (msg_sender e)"
    and "fromExternal fhe (msg_sender e) encryptedMessage inputProof = Some h"
  shows "\<exists>s'. sendMessage fhe e groupId encryptedMessage inputProof s = Inr s'
     \<and> groups s' = groups s
     \<and> groupMessages s' groupId = groupMessages s groupId
          @ [\<lparr> sender = msg_sender e, encryptedContent = h, timestamp = block_timestamp e \<rparr>]
     \<and> (\<forall>a \<in> set (members (groups s ! unat groupId)). \<forall>i.
           unat i = length (groupMessages s groupId)
            \<longrightarrow> canDecryptMessage groupId i a s' = Inr True)"
  using assms
  by (simp add: sendMessage_def Let_def validGroup_def canDecryptMessage_def
      FHE_isAllowed_def FHE_allow_def FHE_allowThis_def allowMembers_fields allowMembers_acl)

text \<open>
  Claim C5 (join guard). For a valid group and a sender who is already a member,
  \<open>joinGroup\<close> reverts with "Already a member", and the transaction leaves the whole
  state (members included) as it was.
\<close>

theorem joinGroup_already_member:
  assumes "validGroup groupId s"
    and "isMember (groups s ! unat groupId) (msg_sender e)"
  shows "joinGroup e groupId s = Inl AlreadyMember \<and> transact fhe (e, JoinGroup groupId) s = s"
  using assms by (simp add: joinGroup_def Let_def)

lemma createGroup_ok:
  assumes "\<forall>g \<in> set (groups s). group_ok g" and "createGroup fhe e nm s = Inr (gid, s')"
  shows "\<forall>g \<in> set (groups s'). group_ok g"
  using assms
  by (auto simp: createGroup_def Let_def FHE_allow_def FHE_allowThis_def group_ok_def split: if_splits)

lemma joinGroup_ok:
  assumes "\<forall>g \<in> set (groups s). group_ok g" and "joinGroup e groupId s = Inr s'"
  shows "\<forall>g \<in> set (groups s'). group_ok g"
proof -
  from assms(2) have v: "unat groupId < length (groups s)"
    and nm: "\<not> isMember (groups s ! unat groupId) (msg_sender e)"
    by (auto simp: joinGroup_def validGroup_def Let_def split: if_splits)
  let ?g = "groups s ! unat groupId"
  let ?g' = "?g\<lparr> isMember := (isMember ?g)(msg_sender e := True), members := members ?g @ [msg_sender e] \<rparr>"
  have g: "group_ok ?g" using assms(1) v by simp
  have g': "group_ok ?g'" using g nm by (auto simp: group_ok_def)
  have gs: "groups s' = (groups s)[unat groupId := ?g']"
    using assms(2) v nm
    by (auto simp: joinGroup_def validGroup_def Let_def allowMessages_fields FHE_allow_def)
  show ?thesis
    unfolding gs using assms(1) g' by (auto dest!: set_update_subset_insert [THEN subsetD])
qed

lemma sendMessage_groups:
  assumes "sendMessage fhe e groupId m p s = Inr s'"
  shows "groups s' = groups s"
  using assms
  by (auto simp: sendMessage_def Let_def allowMembers_fields FHE_allow_def FHE_allowThis_def
      split: if_splits option.splits)

lemma transact_ok:
  assumes "\<forall>g \<in> set (groups s). group_ok g"
  shows "\<forall>g \<in> set (groups (transact fhe c s)). group_ok g"
proof (cases c)
  case (Pair e cl)
  show ?thesis
  proof (cases cl)
    case (CreateGroup nm)
    show ?thesis
    proof (cases "createGroup fhe e nm s")
      case (Inl err)
      then show ?thesis using Pair CreateGroup assms by simp
    next
      case (Inr r)
      obtain gid s' where r: "r = (gid, s')" by (cases r)
      show ?thesis using Pair CreateGroup Inr r createGroup_ok [OF assms, of fhe e nm gid s'] by simp
    qed
  next
    case (JoinGroup gid)
    show ?thesis
    proof (cases "joinGroup e gid s")
      case (Inl err)
      then show ?thesis using Pair JoinGroup assms by simp
    next
      case (Inr s')
      show ?thesis using Pair JoinGroup Inr joinGroup_ok [OF assms Inr] by simp
    qed
  next
    case (SendMessage gid m p)
    show ?thesis
    proof (cases "sendMessage fhe e gid m p s")
      case (Inl err)
      then show ?thesis using Pair SendMessage assms by simp
    next
      case (Inr s')
      show ?thesis using Pair SendMessage Inr sendMessage_groups [OF Inr] assms by simp
    qed
  qed
qed

lemma foldl_transact_ok:
  assumes "\<forall>g \<in> set (groups s). group_ok g"
  shows "\<forall>g \<in> set (groups (foldl (\<lambda>s c. transact fhe c s) s calls)). group_ok g"
  using assms
proof (induction calls arbitrary: s)
  case Nil
  then show ?case by simp
next
  case (Cons c calls)
  show ?case using Cons.IH [OF transact_ok [OF Cons.prems]] by simp
qed

text \<open>
  Claim C6 (membership invariant). In every state reached from the empty registry by a
  sequence of \<open>createGroup\<close>, \<open>joinGroup\<close> and \<open>sendMessage\<close> transactions (with any
  senders, arguments and outcomes), every group has a non-empty member sequence that
  holds its creator and no principal twice, and \<open>isMember\<close> is true of exactly the
  principals in that sequence.
\<close>

theorem membership_invariant:
  "\<forall>g \<in> set (groups (run fhe calls)). group_ok g"
  unfolding run_def by (rule foldl_transact_ok) (simp add: init_registry_def)

lemmas fixture_defs = fhe0_def env_of_def alice_def bob_def carol_def run_def init_registry_def
  createGroup_def joinGroup_def sendMessage_def validGroup_def Let_def FHE_allow_def
  FHE_allowThis_def FHE_isAllowed_def canDecryptGroupKey_def canDecryptMessage_def

lemma history_state_1: "validGroup 0 history_state"
  by (simp add: history_state_def fixture_defs)

lemma history_state_2: "\<not> isMember (groups history_state ! unat (0::uint256)) (msg_sender (env_of bob))"
  by (simp add: history_state_def fixture_defs)

lemma history_state_3: "length (groupMessages history_state 0) = 1"
  by (simp add: history_state_def fixture_defs)

lemma history_state_4: "members (groups history_state ! unat (0::uint256)) = [alice]"
  by (simp add: history_state_def fixture_defs)

text \<open>
  The scenario of the test "shares access to history when new members join": Alice
  creates a group and sends a message, then Bob joins.
\<close>

theorem joinGroup_retroactive_grant_witness:
  "validGroup 0 history_state
   \<and> \<not> isMember (groups history_state ! unat (0::uint256)) (msg_sender (env_of bob))
   \<and> length (groupMessages history_state 0) = 1
   \<and> (\<exists>s'. joinGroup (env_of bob) 0 history_state = Inr s'
        \<and> members (groups s' ! unat (0::uint256)) = [alice, bob]
        \<and> canDecryptGroupKey 0 bob s' = Inr True
        \<and> canDecryptMessage 0 0 bob s' = Inr True)"
  using joinGroup_retroactive_grant [OF history_state_1 history_state_2]
    history_state_1 history_state_2 history_state_3 history_state_4
  by (auto simp: env_of_def)

lemma chat_state_1: "validGroup 0 chat_state"
  by (simp add: chat_state_def fixture_defs)

lemma chat_state_2: "isMember (groups chat_state ! unat (0::uint256)) (msg_sender (env_of bob))"
  by (simp add: chat_state_def fixture_defs)

lemma chat_state_3: "fromExternal fhe0 (msg_sender (env_of bob)) 987654321 [1] = Some 987654321"
  by (simp add: fhe0_def)

lemma chat_state_4: "members (groups chat_state ! unat (0::uint256)) = [alice, bob, carol]"
  by (simp add: chat_state_def fixture_defs)

lemma chat_state_5: "groupMessages chat_state 0 = []"
  by (simp add: chat_state_def fixture_defs)

text \<open>
  Alice creates a group, Bob and Carol join, Bob sends: all three may decrypt the new
  message.
\<close>

theorem sendMessage_forward_grant_witness:
  "validGroup 0 chat_state
   \<and> isMember (groups chat_state ! unat (0::uint256)) (msg_sender (env_of bob))
   \<and> members (groups chat_state ! unat (0::uint256)) = [alice, bob, carol]
   \<and> (\<exists>s'. sendMessage fhe0 (env_of bob) 0 987654321 [1] chat_state = Inr s'
        \<and> map sender (groupMessages s' 0) = [bob]
        \<and> canDecryptMessage 0 0 alice s' = Inr True
        \<and> canDecryptMessage 0 0 bob s' = Inr True
        \<and> canDecryptMessage 0 0 carol s' = Inr True)"
  using sendMessage_forward_grant [OF chat_state_1 chat_state_2 chat_state_3]
    chat_state_1 chat_state_2 chat_state_4 chat_state_5
  by (auto simp: env_of_def)

text \<open>
  Bob, a member of the group, joins again.
\<close>

theorem joinGroup_already_member_witness:
  "validGroup 0 chat_state
   \<and> isMember (groups chat_state ! unat (0::uint256)) (msg_sender (env_of bob))
   \<and> joinGroup (env_of bob) 0 chat_state = Inl AlreadyMember
   \<and> transact fhe0 (env_of bob, JoinGroup 0) chat_state = chat_state"
  using joinGroup_already_member [OF chat_state_1 chat_state_2, of fhe0] chat_state_1 chat_state_2
  by simp

lemma chat_state_6: "groups chat_state = [groups chat_state ! unat (0::uint256)]"
  by (simp add: chat_state_def fixture_defs)

text \<open>
  The invariant on the group of Alice, Bob and Carol.
\<close>

theorem membership_invariant_witness:
  "length (groups chat_state) = 1
   \<and> members (groups chat_state ! unat (0::uint256)) = [alice, bob, carol]
   \<and> group_ok (groups chat_state ! unat (0::uint256))"
proof -
  have "groups chat_state ! unat (0::uint256) \<in> set (groups chat_state)"
    using chat_state_6 by (metis list.set_intros(1))
  then have "group_ok (groups chat_state ! unat (0::uint256))"
    using membership_invariant [of fhe0 "[(env_of alice, CreateGroup ''Chat''),
                          (env_of bob, JoinGroup 0), (env_of carol, JoinGroup 0)]"]
    unfolding chat_state_def by blast
  moreover have "length (groups chat_state) = 1"
    using chat_state_6 by (metis length_Cons list.size(3) One_nat_def)
  ultimately show ?thesis using chat_state_4 by simp
qed


section \<open>Properties of the codec\<close>


subsection \<open>Hexadecimal digits\<close>

lemma unat_jschar_of_nat: "n < 65536 \<Longrightarrow> unat (of_nat n :: jschar) = n"
  by (subst unat_of_nat) simp

lemma unat_hexDigit: "d < 16 \<Longrightarrow> unat (hexDigit d) = (if d < 10 then 48 + d else 87 + d)"
  unfolding hexDigit_def by (simp only: unat_jschar_of_nat split: if_splits) (simp add: unat_jschar_of_nat)

lemma digitValue_hexDigit: "d < 16 \<Longrightarrow> digitValue (hexDigit d) = Some d"
  by (auto simp: digitValue_def unat_hexDigit Let_def)

lemma white_space_no_digit: "isStrWhiteSpaceChar c \<Longrightarrow> digitValue c = None"
  unfolding isStrWhiteSpaceChar_def digitValue_def Let_def
  by (auto simp: word_le_nat_alt)

lemma hexDigit_not_white: "d < 16 \<Longrightarrow> \<not> isStrWhiteSpaceChar (hexDigit d)"
  using white_space_no_digit [of "hexDigit d"] digitValue_hexDigit [of d] by auto

lemma cu_zero: "cu CHR ''0'' = hexDigit 0"
  by (simp add: cu_def hexDigit_def)

lemma js_0x: "js ''0x'' = [hexDigit 0, 120]"
  by (simp add: js_def cu_def hexDigit_def)

lemma startsWith_append [simp]: "startsWith (p @ s) p"
  by (simp add: startsWith_def)

lemma length_js [simp]: "length (js s) = length s"
  by (simp add: js_def)

lemma trimString_id:
  assumes "s \<noteq> []" and "\<not> isStrWhiteSpaceChar (hd s)" and "\<not> isStrWhiteSpaceChar (last s)"
  shows "trimString s = s"
proof -
  have 1: "dropWhile isStrWhiteSpaceChar s = s"
    using assms(1,2) by (cases s) simp_all
  have 2: "dropWhile isStrWhiteSpaceChar (rev s) = rev s"
    using assms(1,3) by (cases "rev s") (simp_all add: last_rev [symmetric] hd_rev)
  show ?thesis by (simp add: trimString_def 1 2)
qed


lemma unat_byte_less: "unat (b :: byte) < 256"
  using unsigned_less [of b] by simp

lemma nibbles: "unat (b :: byte) div 16 < 16" "unat b mod 16 < 16"
  using unat_byte_less [of b] by (simp_all add: less_mult_imp_div_less)

lemma hexPairs_hexPair: "hexPairs (concat (map hexPair bs)) = Some bs"
proof (induction bs)
  case Nil
  then show ?case by simp
next
  case (Cons b bs)
  have "(of_nat (unat b div 16 * 16 + unat b mod 16) :: byte) = b"
    by (simp only: div_mult_mod_eq) simp
  with Cons show ?case by (simp add: digitValue_hexDigit nibbles)
qed

lemma getBytes_hexlify [simp]: "getBytes (hexlify bs) = Inr bs"
  by (simp add: getBytes_def hexlify_def hexPairs_hexPair)

lemma parseDigits_hexPair:
  "parseDigits 16 acc (concat (map hexPair bs)) = Some (acc * 256 ^ length bs + be_nat bs)"
proof (induction bs arbitrary: acc)
  case Nil
  then show ?case by simp
next
  case (Cons b bs)
  have "(acc * 16 + unat b div 16) * 16 + unat b mod 16 = acc * 256 + unat b"
    by (simp add: algebra_simps)
  then show ?case
    by (simp add: digitValue_hexDigit nibbles Cons be_nat_Cons algebra_simps)
qed

lemma BigInt_string_hexlify:
  assumes "bs \<noteq> []"
  shows "BigInt_string (hexlify bs) = Inr (int (be_nat bs))"
proof -
  obtain b bs' where bs: "bs = bs' @ [b]" using assms by (cases bs rule: rev_cases) auto
  have ne: "hexlify bs \<noteq> []" by (simp add: hexlify_def js_0x)
  have h: "hd (hexlify bs) = hexDigit 0" by (simp add: hexlify_def js_0x)
  have l: "last (hexlify bs) = hexDigit (unat b mod 16)" by (simp add: hexlify_def bs)
  have t: "trimString (hexlify bs) = hexlify bs"
    by (rule trimString_id) (simp_all add: ne h l hexDigit_not_white nibbles)
  have d: "drop 2 (hexlify bs) = concat (map hexPair bs)" by (simp add: hexlify_def)
  have c: "concat (map hexPair bs) \<noteq> []" using assms by (cases bs) simp_all
  have s: "startsWith (hexlify bs) (js ''0x'')" by (simp add: hexlify_def)
  show ?thesis
    unfolding BigInt_string_def Let_def t
    using ne s assms by (simp add: d unsignedLiteral_def parseInteger_def c parseDigits_hexPair)
qed


subsection \<open>\<open>toBeHex\<close> and \<open>getBytes\<close>\<close>

lemma parseDigits_append:
  "parseDigits r acc (xs @ ys) =
     (case parseDigits r acc xs of None \<Rightarrow> None | Some a \<Rightarrow> parseDigits r a ys)"
  by (induction xs arbitrary: acc) (simp_all split: option.splits)

lemma length_toString16_pos: "0 < length (toString16 n)"
  by (subst toString16.simps) simp

lemma toString16_not_Nil [simp]: "toString16 n \<noteq> []"
  using length_toString16_pos [of n] by simp

lemma parseDigits_toString16:
  "parseDigits 16 acc (toString16 n) = Some (acc * 16 ^ length (toString16 n) + n)"
proof (induction n arbitrary: acc rule: toString16.induct)
  case (1 n)
  show ?case
  proof (cases "n < 16")
    case True
    then show ?thesis
      by (subst (1 2) toString16.simps) (simp add: digitValue_hexDigit)
  next
    case False
    have m: "n mod 16 < 16" by simp
    show ?thesis
      using False
      by (subst (1 2) toString16.simps)
         (simp add: parseDigits_append "1.IH" digitValue_hexDigit m algebra_simps)
  qed
qed

lemma toString16_upper: "n < 16 ^ length (toString16 n)"
proof (induction n rule: toString16.induct)
  case (1 n)
  show ?case
  proof (cases "n < 16")
    case True
    then show ?thesis by (subst toString16.simps) simp
  next
    case False
    have "n div 16 < 16 ^ length (toString16 (n div 16))" using False "1.IH" by simp
    then have "n < 16 * 16 ^ length (toString16 (n div 16))"
      by (simp add: div_less_iff_less_mult mult.commute)
    then show ?thesis using False by (subst toString16.simps) simp
  qed
qed

lemma toString16_lower: "0 < n \<Longrightarrow> 16 ^ (length (toString16 n) - 1) \<le> n"
proof (induction n rule: toString16.induct)
  case (1 n)
  show ?case
  proof (cases "n < 16")
    case True
    then show ?thesis using "1.prems" by (subst toString16.simps) simp
  next
    case False
    then have p: "0 < n div 16" by (simp add: div_greater_zero_iff)
    have "16 ^ (length (toString16 (n div 16)) - 1) \<le> n div 16"
      using False "1.IH" p by simp
    then have "16 * 16 ^ (length (toString16 (n div 16)) - 1) \<le> n"
      by (simp add: less_eq_div_iff_mult_less_eq mult.commute)
    moreover have "length (toString16 n) - 1 = Suc (length (toString16 (n div 16)) - 1)"
      using False length_toString16_pos [of "n div 16"] by (subst toString16.simps) simp
    ultimately show ?thesis by (simp only: power_Suc)
  qed
qed

lemma length_toString16_le:
  assumes "0 < k"
  shows "length (toString16 n) \<le> k \<longleftrightarrow> n < 16 ^ k"
proof
  assume "length (toString16 n) \<le> k"
  then have "(16::nat) ^ length (toString16 n) \<le> 16 ^ k" by (simp add: power_increasing)
  with toString16_upper [of n] show "n < 16 ^ k" by (rule less_le_trans)
next
  assume n: "n < 16 ^ k"
  show "length (toString16 n) \<le> k"
  proof (cases "n = 0")
    case True
    then show ?thesis using assms by (subst toString16.simps) simp
  next
    case False
    then have "0 < n" by simp
    from toString16_lower [OF this] n
    have "(16::nat) ^ (length (toString16 n) - 1) < 16 ^ k"
      by (rule le_less_trans)
    then have "length (toString16 n) - 1 < k" by (simp add: power_strict_increasing_iff)
    then show ?thesis by simp
  qed
qed

lemma digitValue_less: "digitValue c = Some d \<Longrightarrow> d < 16"
  by (auto simp: digitValue_def Let_def split: if_splits)

lemma hexPairs_parseDigits:
  assumes "even (length ds)" and "parseDigits 16 acc ds = Some v"
  shows "\<exists>bs. hexPairs ds = Some bs \<and> length bs = length ds div 2
           \<and> v = acc * 256 ^ length bs + be_nat bs"
  using assms
proof (induction ds arbitrary: acc rule: hexPairs.induct)
  case 1
  then show ?case by simp
next
  case (2 c)
  then show ?case by simp
next
  case (3 c d cs)
  from "3.prems"(2) obtain hi lo where hi: "digitValue c = Some hi" and lo: "digitValue d = Some lo"
    and rest: "parseDigits 16 ((acc * 16 + hi) * 16 + lo) cs = Some v"
    by (auto split: option.splits if_splits)
  have hl: "hi < 16" "lo < 16" using hi lo digitValue_less by blast+
  from "3.prems"(1) have ev: "even (length cs)" by simp
  from "3.IH" [OF hi lo ev rest] obtain bs where bs: "hexPairs cs = Some bs"
    "length bs = length cs div 2" "v = ((acc * 16 + hi) * 16 + lo) * 256 ^ length bs + be_nat bs"
    by blast
  have u: "unat (of_nat (hi * 16 + lo) :: byte) = hi * 16 + lo"
    using hl by (intro unat_byte_of_nat) simp
  show ?case
    using hi lo bs u by (simp add: be_nat_Cons algebra_simps)
qed

lemma parseDigits_leading_zeros:
  "parseDigits 16 0 (replicate k (hexDigit 0) @ ds) = parseDigits 16 0 ds"
  by (induction k) (simp_all add: digitValue_hexDigit)

text \<open>The bytes of a hexadecimal rendering of \<open>n\<close>, with any number of leading zeros.\<close>

lemma hexPairs_zeros_toString16:
  assumes "even (k + length (toString16 n))"
  shows "hexPairs (replicate k (hexDigit 0) @ toString16 n)
         = Some (be_bytes ((k + length (toString16 n)) div 2) n)"
proof -
  let ?ds = "replicate k (hexDigit 0) @ toString16 n"
  have p: "parseDigits 16 0 ?ds = Some n"
    by (simp add: parseDigits_leading_zeros parseDigits_toString16)
  have e: "even (length ?ds)" using assms by simp
  from hexPairs_parseDigits [OF e p] obtain bs where bs: "hexPairs ?ds = Some bs"
    "length bs = length ?ds div 2" "n = be_nat bs" by auto
  have "bs = be_bytes (length bs) (be_nat bs)" by (simp only: be_bytes_be_nat)
  then show ?thesis using bs by simp
qed

lemma toBeHex_nonneg:
  assumes "0 \<le> v"
  shows "toBeHex v = Inr (js ''0x'' @ replicate (length (toString16 (nat v)) mod 2) (hexDigit 0)
                            @ toString16 (nat v))"
  using assms by (auto simp: toBeHex_def Let_def cu_zero odd_iff_mod_2_eq_one)

lemma byteLength_le:
  assumes "0 < k"
  shows "byteLength n \<le> k \<longleftrightarrow> n < 256 ^ k"
proof -
  have "byteLength n \<le> k \<longleftrightarrow> length (toString16 n) \<le> 2 * k"
    unfolding byteLength_def by presburger
  also have "\<dots> \<longleftrightarrow> n < 16 ^ (2 * k)"
    using assms by (intro length_toString16_le) simp
  also have "(16::nat) ^ (2 * k) = 256 ^ k"
    by (simp add: power_mult)
  finally show ?thesis .
qed

lemma getBytes_toBeHex:
  assumes "0 \<le> v"
  shows "\<exists>hex. toBeHex v = Inr hex \<and> getBytes hex = Inr (be_bytes (byteLength (nat v)) (nat v))"
proof -
  let ?n = "nat v"
  let ?k = "length (toString16 ?n) mod 2"
  have e: "even (?k + length (toString16 ?n))" by presburger
  have l: "(?k + length (toString16 ?n)) div 2 = byteLength ?n"
    unfolding byteLength_def by presburger
  show ?thesis
    using hexPairs_zeros_toString16 [OF e]
    by (simp add: toBeHex_nonneg [OF assms] getBytes_def l)
qed

lemma toBeHex_negative: "v < 0 \<Longrightarrow> toBeHex v = Inl NUMERIC_FAULT"
  by (simp add: toBeHex_def)


subsection \<open>The XOR with the key stream\<close>

lemma xor_loop_nth:
  "length (foldl (\<lambda>p i. if i < length p then p[i := p ! i XOR uint8_at k i] else p) p [0..<n])
     = length p
   \<and> (\<forall>i < length p.
        foldl (\<lambda>p i. if i < length p then p[i := p ! i XOR uint8_at k i] else p) p [0..<n] ! i
        = (if i < n then p ! i XOR uint8_at k i else p ! i))"
proof (induction n)
  case 0
  then show ?case by simp
next
  case (Suc n)
  then show ?case by (auto simp: nth_list_update less_Suc_eq)
qed

lemma xorKey_map2:
  assumes "length p = KEY_BYTES" and "length k = KEY_BYTES"
  shows "xorKey p k = map2 (XOR) p k"
proof (rule nth_equalityI)
  show "length (xorKey p k) = length (map2 (XOR) p k)"
    using assms xor_loop_nth [of k p KEY_BYTES] by (simp add: xorKey_def)
next
  fix i assume "i < length (xorKey p k)"
  then have i: "i < KEY_BYTES"
    using assms xor_loop_nth [of k p KEY_BYTES] by (simp add: xorKey_def)
  then show "xorKey p k ! i = map2 (XOR) p k ! i"
    using assms xor_loop_nth [of k p KEY_BYTES] by (simp add: xorKey_def uint8_at_def)
qed

lemma map_indexed_xor:
  assumes "length p = length k"
  shows "map (\<lambda>(byte, idx). byte XOR uint8_at k idx) (zip p [0..<length p]) = map2 (XOR) p k"
  using assms by (intro nth_equalityI) (simp_all add: uint8_at_def)

lemma map2_xor_twice:
  assumes "length p = length k"
  shows "map2 (XOR) (map2 (XOR) p k) k = (p :: byte list)"
  using assms by (intro nth_equalityI) (simp_all add: xor.assoc)

lemma length_map2_xor [simp]: "length (map2 (XOR) p k) = min (length p) (length (k :: byte list))"
  by simp

subsection \<open>The key stream\<close>

lemma getBytes_ethers_keccak256 [simp]:
  "getBytes (ethers_keccak256 bytes) = Inr (be_bytes 32 (unat (keccak256 bytes)))"
  by (simp add: ethers_keccak256_def)

lemma deriveKeyBytes_length:
  assumes "deriveKeyBytes groupKey = Inr keyBytes"
  shows "length keyBytes = KEY_BYTES"
  using assms by (auto simp: deriveKeyBytes_def KEY_BYTES_def split: sum.splits if_splits)

subsection \<open>The payload of \<open>openMessage\<close>\<close>

lemma open_payload:
  assumes "0 \<le> c" and "c < 2 ^ 256"
  shows "\<exists>hex padded. toBeHex c = Inr hex \<and> zeroPadValue hex KEY_BYTES = Inr padded
           \<and> getBytes padded = Inr (be_bytes KEY_BYTES (nat c))"
proof -
  from getBytes_toBeHex [OF assms(1)] obtain hex where hex: "toBeHex c = Inr hex"
    "getBytes hex = Inr (be_bytes (byteLength (nat c)) (nat c))" by blast
  let ?bs = "be_bytes (byteLength (nat c)) (nat c)"
  have "nat c < 2 ^ 256" using assms by (simp add: nat_less_iff)
  then have n: "nat c < 256 ^ 32" by simp
  then have le: "byteLength (nat c) \<le> 32" by (simp add: byteLength_le)
  let ?P = "replicate (32 - byteLength (nat c)) (0::byte) @ ?bs"
  have z: "zeroPadValue hex KEY_BYTES = Inr (hexlify ?P)"
    using hex le by (simp add: zeroPadValue_def KEY_BYTES_def)
  have lb: "byteLength (nat c) \<noteq> 0" by (simp add: byteLength_def)
  have "nat c < 256 ^ byteLength (nat c)"
    using byteLength_le [of "byteLength (nat c)" "nat c"] lb by simp
  then have "be_nat ?bs = nat c" by (simp add: be_nat_be_bytes)
  then have v: "be_nat ?P = nat c" by simp
  have l: "length ?P = 32" using le by simp
  have "?P = be_bytes (length ?P) (be_nat ?P)" by (simp only: be_bytes_be_nat)
  then have "?P = be_bytes 32 (nat c)" by (simp only: l v)
  then show ?thesis using hex z by (simp add: KEY_BYTES_def)
qed

lemma open_overrun:
  assumes "2 ^ 256 \<le> c"
  shows "\<exists>hex. toBeHex c = Inr hex \<and> zeroPadValue hex KEY_BYTES = Inl BUFFER_OVERRUN"
proof -
  have c: "0 \<le> c" using assms by (rule order_trans [rotated]) simp
  from getBytes_toBeHex [OF c] obtain hex where hex: "toBeHex c = Inr hex"
    "getBytes hex = Inr (be_bytes (byteLength (nat c)) (nat c))" by blast
  have "\<not> nat c < 2 ^ 256" using assms by (simp add: nat_less_iff)
  then have "\<not> nat c < 256 ^ 32" by simp
  then have "\<not> byteLength (nat c) \<le> 32" by (simp add: byteLength_le)
  then show ?thesis using hex by (simp add: zeroPadValue_def KEY_BYTES_def)
qed


subsection \<open>UTF-8: the decoder inverts the encoder\<close>

lemma decode_1:
  assumes "c \<le> 0x7F"
  shows "utf8_decode utf8_initial (utf8_encode_cp c @ rest) = c # utf8_decode utf8_initial rest"
proof -
  have "unat (of_nat c :: byte) = c" using assms by (intro unat_byte_of_nat) simp
  then show ?thesis
    using assms by (simp add: utf8_encode_cp_def utf8_decode.simps utf8_initial_def)
qed

text \<open>A number split into its base-64 digits.\<close>

lemma split64: "\<exists>q r. c = q * 64 + r \<and> r < 64 \<and> c div 64 = q \<and> c mod 64 = (r::nat)"
  by (intro exI [of _ "c div 64"] exI [of _ "c mod 64"]) simp

lemma lead_mod_32: "a < 32 \<Longrightarrow> (192 + a) mod 32 = (a::nat)"
  using mod_mult_self3 [of 6 32 a] by simp

lemma lead_mod_16: "b < 16 \<Longrightarrow> (224 + b) mod 16 = (b::nat)"
  using mod_mult_self3 [of 14 16 b] by simp

lemma lead_mod_8: "d < 8 \<Longrightarrow> (240 + d) mod 8 = (d::nat)"
  using mod_mult_self3 [of 30 8 d] by simp

lemma cont_mod_64: "r < 64 \<Longrightarrow> (128 + r) mod 64 = (r::nat)"
  using mod_mult_self3 [of 2 64 r] by simp

lemma decode_2:
  assumes "\<not> c \<le> 0x7F" and "c \<le> 0x7FF"
  shows "utf8_decode utf8_initial (utf8_encode_cp c @ rest) = c # utf8_decode utf8_initial rest"
proof -
  obtain q r where c: "c = q * 64 + r" "r < 64" and d: "c div 64 = q" "c mod 64 = r"
    using split64 [of c] by blast
  have q: "2 \<le> q" "q \<le> 31" using assms c by linarith+
  have u1: "unat (of_nat (192 + q) :: byte) = 192 + q" using q by (intro unat_byte_of_nat) simp
  have u2: "unat (of_nat (128 + r) :: byte) = 128 + r" using c by (intro unat_byte_of_nat) simp
  have m1: "(192 + q) mod 32 = q" using q by (intro lead_mod_32) simp
  have m2: "(128 + r) mod 64 = r" using c by (intro cont_mod_64)
  have e: "utf8_encode_cp c = [of_nat (192 + q), of_nat (128 + r)]"
    using assms by (simp add: utf8_encode_cp_def d del: of_nat_add)
  have s1: "utf8_decode utf8_initial (of_nat (192 + q) # of_nat (128 + r) # rest)
        = utf8_decode (utf8_initial\<lparr> bytes_needed := 1, code_point := q \<rparr>) (of_nat (128 + r) # rest)"
    using q by (subst utf8_decode.simps) (simp add: u1 m1 utf8_initial_def del: of_nat_add)
  have s2: "utf8_decode (utf8_initial\<lparr> bytes_needed := 1, code_point := q \<rparr>) (of_nat (128 + r) # rest)
        = c # utf8_decode utf8_initial rest"
    using c by (subst utf8_decode.simps) (simp add: u2 m2 utf8_initial_def Let_def del: of_nat_add)
  show ?thesis unfolding e using s1 s2 by simp
qed

text \<open>One step of the decoder on a continuation byte.\<close>

lemma utf8_decode_continue:
  assumes "bytes_needed st \<noteq> 0" and "unat b = 128 + r" and "r < 64"
    and "lower_boundary st \<le> 128 + r" and "128 + r \<le> upper_boundary st"
  shows "utf8_decode st (b # bs) =
     (if bytes_seen st + 1 \<noteq> bytes_needed st
      then utf8_decode \<lparr> code_point = code_point st * 64 + r, bytes_seen = bytes_seen st + 1,
                          bytes_needed = bytes_needed st, lower_boundary = 0x80,
                          upper_boundary = 0xBF \<rparr> bs
      else (code_point st * 64 + r) # utf8_decode utf8_initial bs)"
proof (cases st)
  case (fields cp seen needed lo hi)
  then show ?thesis
    using assms by (subst utf8_decode.simps) (simp add: Let_def cont_mod_64)
qed

lemma decode_3:
  assumes "\<not> c \<le> 0x7FF" and "c \<le> 0xFFFF" and "\<not> (0xD800 \<le> c \<and> c \<le> 0xDFFF)"
  shows "utf8_decode utf8_initial (utf8_encode_cp c @ rest) = c # utf8_decode utf8_initial rest"
proof -
  obtain q r3 where c: "c = q * 64 + r3" "r3 < 64" and d: "c div 64 = q" "c mod 64 = r3"
    using split64 [of c] by blast
  obtain a r2 where q: "q = a * 64 + r2" "r2 < 64" and dq: "q div 64 = a" "q mod 64 = r2"
    using split64 [of q] by blast
  have d3: "c div 4096 = a" using div_mult2_eq [of c 64 64] d dq by simp
  have a: "a \<le> 15" using assms c q by linarith
  have lo: "a = 0 \<longrightarrow> 32 \<le> r2" using assms c q by auto
  have hi: "a = 13 \<longrightarrow> r2 < 32" using assms c q by auto
  have u1: "unat (of_nat (224 + a) :: byte) = 224 + a" using a by (intro unat_byte_of_nat) simp
  have u2: "unat (of_nat (128 + r2) :: byte) = 128 + r2" using q by (intro unat_byte_of_nat) simp
  have u3: "unat (of_nat (128 + r3) :: byte) = 128 + r3" using c by (intro unat_byte_of_nat) simp
  have m1: "(224 + a) mod 16 = a" using a by (intro lead_mod_16) simp
  have e: "utf8_encode_cp c = [of_nat (224 + a), of_nat (128 + r2), of_nat (128 + r3)]"
    using assms by (simp add: utf8_encode_cp_def d dq d3 del: of_nat_add)
  define st1 where "st1 = \<lparr> code_point = a, bytes_seen = 0, bytes_needed = 2,
     lower_boundary = (if a = 0 then 0xA0 else 0x80), upper_boundary = (if a = 13 then 0x9F else 0xBF) \<rparr>"
  have s1: "utf8_decode utf8_initial (of_nat (224 + a) # of_nat (128 + r2) # of_nat (128 + r3) # rest)
        = utf8_decode st1 (of_nat (128 + r2) # of_nat (128 + r3) # rest)"
    using a by (subst utf8_decode.simps) (simp add: u1 m1 utf8_initial_def st1_def del: of_nat_add)
  have b1: "lower_boundary st1 \<le> 128 + r2" "128 + r2 \<le> upper_boundary st1"
    using lo hi q by (auto simp: st1_def)
  have s2: "utf8_decode st1 (of_nat (128 + r2) # of_nat (128 + r3) # rest)
        = utf8_decode \<lparr> code_point = q, bytes_seen = 1, bytes_needed = 2,
                          lower_boundary = 0x80, upper_boundary = 0xBF \<rparr> (of_nat (128 + r3) # rest)"
    using utf8_decode_continue [of st1 "of_nat (128 + r2)" r2, OF _ u2 q(2) b1]
    by (simp add: st1_def q del: of_nat_add)
  have s3: "utf8_decode \<lparr> code_point = q, bytes_seen = 1, bytes_needed = 2,
                          lower_boundary = 0x80, upper_boundary = 0xBF \<rparr> (of_nat (128 + r3) # rest)
        = c # utf8_decode utf8_initial rest"
    using utf8_decode_continue [of _ "of_nat (128 + r3)" r3, OF _ u3 c(2)] c
    by (simp del: of_nat_add)
  show ?thesis unfolding e using s1 s2 s3 by simp
qed

lemma decode_4:
  assumes "\<not> c \<le> 0xFFFF" and "c < 0x110000"
  shows "utf8_decode utf8_initial (utf8_encode_cp c @ rest) = c # utf8_decode utf8_initial rest"
proof -
  obtain q r4 where c: "c = q * 64 + r4" "r4 < 64" and d: "c div 64 = q" "c mod 64 = r4"
    using split64 [of c] by blast
  obtain p r3 where q: "q = p * 64 + r3" "r3 < 64" and dq: "q div 64 = p" "q mod 64 = r3"
    using split64 [of q] by blast
  obtain a r2 where p: "p = a * 64 + r2" "r2 < 64" and dp: "p div 64 = a" "p mod 64 = r2"
    using split64 [of p] by blast
  have d3: "c div 4096 = p" using div_mult2_eq [of c 64 64] d dq by simp
  have d4: "c div 262144 = a" using div_mult2_eq [of c 4096 64] d3 dp by simp
  have a: "a \<le> 4" using assms c q p by linarith
  have lo: "a = 0 \<longrightarrow> 16 \<le> r2" using assms c q p by auto
  have hi: "a = 4 \<longrightarrow> r2 < 16" using assms c q p by auto
  have u1: "unat (of_nat (240 + a) :: byte) = 240 + a" using a by (intro unat_byte_of_nat) simp
  have u2: "unat (of_nat (128 + r2) :: byte) = 128 + r2" using p by (intro unat_byte_of_nat) simp
  have u3: "unat (of_nat (128 + r3) :: byte) = 128 + r3" using q by (intro unat_byte_of_nat) simp
  have u4: "unat (of_nat (128 + r4) :: byte) = 128 + r4" using c by (intro unat_byte_of_nat) simp
  have m1: "(240 + a) mod 8 = a" using a by (intro lead_mod_8) simp
  have e: "utf8_encode_cp c
           = [of_nat (240 + a), of_nat (128 + r2), of_nat (128 + r3), of_nat (128 + r4)]"
    using assms by (simp add: utf8_encode_cp_def d dq dp d3 d4 del: of_nat_add)
  define st1 where "st1 = \<lparr> code_point = a, bytes_seen = 0, bytes_needed = 3,
     lower_boundary = (if a = 0 then 0x90 else 0x80), upper_boundary = (if a = 4 then 0x8F else 0xBF) \<rparr>"
  have s1: "utf8_decode utf8_initial
              (of_nat (240 + a) # of_nat (128 + r2) # of_nat (128 + r3) # of_nat (128 + r4) # rest)
        = utf8_decode st1 (of_nat (128 + r2) # of_nat (128 + r3) # of_nat (128 + r4) # rest)"
    using a by (subst utf8_decode.simps) (simp add: u1 m1 utf8_initial_def st1_def del: of_nat_add)
  have b1: "lower_boundary st1 \<le> 128 + r2" "128 + r2 \<le> upper_boundary st1"
    using lo hi p by (auto simp: st1_def)
  have s2: "utf8_decode st1 (of_nat (128 + r2) # of_nat (128 + r3) # of_nat (128 + r4) # rest)
        = utf8_decode \<lparr> code_point = p, bytes_seen = 1, bytes_needed = 3,
                          lower_boundary = 0x80, upper_boundary = 0xBF \<rparr>
            (of_nat (128 + r3) # of_nat (128 + r4) # rest)"
    using utf8_decode_continue [of st1 "of_nat (128 + r2)" r2, OF _ u2 p(2) b1]
    by (simp add: st1_def p del: of_nat_add)
  have s3: "utf8_decode \<lparr> code_point = p, bytes_seen = 1, bytes_needed = 3,
                          lower_boundary = 0x80, upper_boundary = 0xBF \<rparr>
              (of_nat (128 + r3) # of_nat (128 + r4) # rest)
        = utf8_decode \<lparr> code_point = q, bytes_seen = Suc (Suc 0), bytes_needed = 3,
                          lower_boundary = 0x80, upper_boundary = 0xBF \<rparr> (of_nat (128 + r4) # rest)"
    using utf8_decode_continue [of _ "of_nat (128 + r3)" r3, OF _ u3 q(2)] q
    by (simp del: of_nat_add)
  have s4: "utf8_decode \<lparr> code_point = q, bytes_seen = Suc (Suc 0), bytes_needed = 3,
                          lower_boundary = 0x80, upper_boundary = 0xBF \<rparr> (of_nat (128 + r4) # rest)
        = c # utf8_decode utf8_initial rest"
    using utf8_decode_continue [of _ "of_nat (128 + r4)" r4, OF _ u4 c(2)] c
    by (simp del: of_nat_add)
  show ?thesis unfolding e using s1 s2 s3 s4 by simp
qed

lemma utf8_decode_encode_cp:
  assumes "isScalarValue c"
  shows "utf8_decode utf8_initial (utf8_encode_cp c @ rest) = c # utf8_decode utf8_initial rest"
proof -
  consider "c \<le> 0x7F" | "\<not> c \<le> 0x7F" "c \<le> 0x7FF" | "\<not> c \<le> 0x7FF" "c \<le> 0xFFFF"
    | "\<not> c \<le> 0xFFFF" by linarith
  then show ?thesis
  proof cases
    case 1
    then show ?thesis by (rule decode_1)
  next
    case 2
    then show ?thesis by (rule decode_2)
  next
    case 3
    then show ?thesis using assms by (intro decode_3) (simp_all add: isScalarValue_def)
  next
    case 4
    then show ?thesis using assms by (intro decode_4) (simp_all add: isScalarValue_def)
  qed
qed

lemma utf8_decode_Nil: "utf8_decode utf8_initial [] = []"
  by (simp add: utf8_decode.simps utf8_initial_def)

lemma utf8_decode_encode:
  assumes "list_all isScalarValue cs"
  shows "utf8_decode utf8_initial (concat (map utf8_encode_cp cs)) = cs"
  using assms by (induction cs) (simp_all add: utf8_decode_encode_cp utf8_decode_Nil)


subsection \<open>UTF-16 and the byte order mark\<close>

lemma unat_jschar_less: "unat (c :: jschar) < 65536"
  using unsigned_less [of c] by simp

lemma isScalarValue_FFFD: "isScalarValue 0xFFFD"
  by (simp add: isScalarValue_def)

lemma isScalarValue_unit:
  assumes "\<not> (isHighSurrogate c \<or> isLowSurrogate c)"
  shows "isScalarValue (unat c)"
  using assms unat_jschar_less [of c]
  by (simp add: isScalarValue_def isHighSurrogate_def isLowSurrogate_def) linarith

text \<open>The offsets of a surrogate pair.\<close>

lemma surrogate_offsets:
  assumes "isHighSurrogate c" and "isLowSurrogate d"
  shows "\<exists>h l. unat c = 0xD800 + h \<and> h < 0x400 \<and> unat d = 0xDC00 + l \<and> l < 0x400"
proof -
  have "unat c = 0xD800 + (unat c - 0xD800)" "unat c - 0xD800 < 0x400"
    using assms(1) unfolding isHighSurrogate_def by linarith+
  moreover have "unat d = 0xDC00 + (unat d - 0xDC00)" "unat d - 0xDC00 < 0x400"
    using assms(2) unfolding isLowSurrogate_def by linarith+
  ultimately show ?thesis by blast
qed

lemma isScalarValue_pair:
  assumes "isHighSurrogate c" and "isLowSurrogate d"
  shows "isScalarValue (0x10000 + (unat c - 0xD800) * 0x400 + (unat d - 0xDC00))"
proof -
  obtain h l where hl: "unat c = 0xD800 + h" "h < 0x400" "unat d = 0xDC00 + l" "l < 0x400"
    using surrogate_offsets [OF assms] by blast
  have "0x10000 + h * 0x400 + l < 0x110000" using hl by linarith
  then show ?thesis by (simp add: isScalarValue_def hl)
qed

lemma toScalarValues_scalar: "list_all isScalarValue (toScalarValues s)"
proof (induction s rule: toScalarValues.induct)
  case 1
  then show ?case by simp
next
  case (2 c)
  then show ?case by (simp add: isScalarValue_FFFD isScalarValue_unit)
next
  case (3 c d cs)
  then show ?case by (simp add: isScalarValue_FFFD isScalarValue_unit isScalarValue_pair)
qed

lemma fromScalarValue_unit:
  "fromScalarValue (unat (c :: jschar)) = [c]"
  using unat_jschar_less [of c] by (simp add: fromScalarValue_def)

lemma fromScalarValue_pair:
  assumes "isHighSurrogate c" and "isLowSurrogate d"
  shows "fromScalarValue (0x10000 + (unat c - 0xD800) * 0x400 + (unat d - 0xDC00)) = [c, d]"
proof -
  obtain h l where hl: "unat c = 0xD800 + h" "h < 0x400" "unat d = 0xDC00 + l" "l < 0x400"
    using surrogate_offsets [OF assms] by blast
  have 1: "(h * 0x400 + l) div 0x400 = h" using hl by simp
  have 2: "(h * 0x400 + l) mod 0x400 = l" using hl by simp
  have c: "(of_nat (0xD800 + h) :: jschar) = c" using hl(1) [symmetric] by (simp del: of_nat_add)
  have d: "(of_nat (0xDC00 + l) :: jschar) = d" using hl(3) [symmetric] by (simp del: of_nat_add)
  have "fromScalarValue (0x10000 + (h * 0x400 + l)) = [of_nat (0xD800 + h), of_nat (0xDC00 + l)]"
    unfolding fromScalarValue_def using 1 2 by (simp del: of_nat_add)
  then show ?thesis by (simp add: hl c d add.assoc del: of_nat_add)
qed

lemma fromScalarValues_toScalarValues:
  assumes "wellFormed s"
  shows "concat (map fromScalarValue (toScalarValues s)) = s"
  using assms
proof (induction s rule: toScalarValues.induct)
  case 1
  then show ?case by simp
next
  case (2 c)
  then show ?case by (simp add: fromScalarValue_unit)
next
  case (3 c d cs)
  show ?case
  proof (cases "isHighSurrogate c \<and> isLowSurrogate d")
    case True
    then show ?thesis using 3 by (simp add: fromScalarValue_pair)
  next
    case False
    then have wf: "\<not> (isHighSurrogate c \<or> isLowSurrogate c)" "wellFormed (d # cs)"
      using "3.prems" by simp_all
    have "concat (map fromScalarValue (toScalarValues (d # cs))) = d # cs"
      using "3.IH"(3) False wf by blast
    then show ?thesis using False wf(1) by (simp add: fromScalarValue_unit)
  qed
qed

lemma unat_BOM: "unat (c :: jschar) = 0xFEFF \<longleftrightarrow> c = 0xFEFF"
proof
  assume "unat c = 0xFEFF"
  then have "of_nat (unat c) = (of_nat 0xFEFF :: jschar)" by (simp only:)
  then show "c = 0xFEFF" by simp
next
  assume "c = 0xFEFF"
  then show "unat c = 0xFEFF" by simp
qed

lemma toScalarValues_no_BOM:
  assumes "s = [] \<or> hd s \<noteq> 0xFEFF"
  shows "stripBOM (toScalarValues s) = toScalarValues s"
proof (cases s rule: toScalarValues.cases)
  case 1
  then show ?thesis by (simp add: stripBOM_def)
next
  case (2 c)
  then have "unat c \<noteq> 0xFEFF" using assms by (simp add: unat_BOM)
  then show ?thesis using 2 by (simp add: stripBOM_def)
next
  case (3 c d cs)
  then have n: "unat c \<noteq> 0xFEFF" using assms by (simp add: unat_BOM)
  show ?thesis
  proof (cases "isHighSurrogate c \<and> isLowSurrogate d")
    case True
    then obtain h l where "unat c = 0xD800 + h" "h < 0x400" "unat d = 0xDC00 + l" "l < 0x400"
      using surrogate_offsets by blast
    then show ?thesis using 3 True by (simp add: stripBOM_def)
  next
    case False
    then show ?thesis using 3 n by (simp add: stripBOM_def)
  qed
qed

lemma TextDecoder_TextEncoder_general:
  "TextDecoder_decode (TextEncoder_encode s)
   = concat (map fromScalarValue (stripBOM (toScalarValues s)))"
  by (simp add: TextDecoder_decode_def TextEncoder_encode_def utf8_decode_encode
      toScalarValues_scalar)

lemma TextDecoder_TextEncoder:
  assumes "wellFormed s" and "s = [] \<or> hd s \<noteq> 0xFEFF"
  shows "TextDecoder_decode (TextEncoder_encode s) = s"
  by (simp add: TextDecoder_TextEncoder_general toScalarValues_no_BOM [OF assms(2)]
      fromScalarValues_toScalarValues [OF assms(1)])


subsection \<open>What \<open>sealMessage\<close> and \<open>openMessage\<close> compute\<close>

lemma uint8_set_envelope:
  assumes "length encoded \<le> MAX_MESSAGE_BYTES"
  shows "uint8_set ((replicate KEY_BYTES 0)[0 := of_nat (length encoded)]) encoded 1
         = Inr (envelope encoded)"
proof -
  have "replicate (Suc 31) (0::byte) = 0 # replicate 31 0" by (rule replicate_Suc)
  then have r: "replicate KEY_BYTES (0::byte) = 0 # replicate MAX_MESSAGE_BYTES 0"
    by (simp add: KEY_BYTES_def MAX_MESSAGE_BYTES_def)
  show ?thesis
    using assms unfolding r
    by (simp add: uint8_set_def envelope_def MAX_MESSAGE_BYTES_def KEY_BYTES_def)
qed

lemma length_envelope:
  "length encoded \<le> MAX_MESSAGE_BYTES \<Longrightarrow> length (envelope encoded) = KEY_BYTES"
  by (simp add: envelope_def MAX_MESSAGE_BYTES_def KEY_BYTES_def)

lemma sealMessage_eval:
  assumes "deriveKeyBytes groupKey = Inr keyBytes"
  shows "sealMessage message groupKey =
     (if length (TextEncoder_encode message) > MAX_MESSAGE_BYTES then Inl MessageTooLong
      else Inr (int (be_nat (map2 (XOR) (envelope (TextEncoder_encode message)) keyBytes))))"
proof (cases "length (TextEncoder_encode message) > MAX_MESSAGE_BYTES")
  case True
  then show ?thesis by (simp add: sealMessage_def assms)
next
  case False
  then have le: "length (TextEncoder_encode message) \<le> MAX_MESSAGE_BYTES" by simp
  have k: "length keyBytes = KEY_BYTES" using assms by (rule deriveKeyBytes_length)
  have x: "xorKey (envelope (TextEncoder_encode message)) keyBytes
           = map2 (XOR) (envelope (TextEncoder_encode message)) keyBytes"
    using length_envelope [OF le] k by (rule xorKey_map2)
  have ne: "map2 (XOR) (envelope (TextEncoder_encode message)) keyBytes \<noteq> []"
    using length_envelope [OF le] k by (auto simp: KEY_BYTES_def)
  show ?thesis
    using False
    by (simp add: sealMessage_def assms Let_def uint8_set_envelope [OF le, unfolded One_nat_def] x
        BigInt_string_hexlify [OF ne])
qed

lemma openMessage_eval:
  assumes "deriveKeyBytes groupKey = Inr keyBytes" and "0 \<le> c" and "c < 2 ^ 256"
  shows "openMessage c groupKey =
     Inr (TextDecoder_decode
            (take (unat (uint8_at (map2 (XOR) (be_bytes KEY_BYTES (nat c)) keyBytes) 0))
               (drop 1 (map2 (XOR) (be_bytes KEY_BYTES (nat c)) keyBytes))))"
proof -
  from open_payload [OF assms(2,3)] obtain hex padded where
    h: "toBeHex c = Inr hex" "zeroPadValue hex KEY_BYTES = Inr padded"
       "getBytes padded = Inr (be_bytes KEY_BYTES (nat c))" by blast
  have k: "length keyBytes = KEY_BYTES" using assms(1) by (rule deriveKeyBytes_length)
  have m: "map (\<lambda>(byte, idx). byte XOR uint8_at keyBytes idx)
             (zip (be_bytes KEY_BYTES (nat c)) [0..<length (be_bytes KEY_BYTES (nat c))])
           = map2 (XOR) (be_bytes KEY_BYTES (nat c)) keyBytes"
    by (rule map_indexed_xor) (simp add: k)
  show ?thesis
    unfolding openMessage_def by (simp only: assms(1) h m sum.case Let_def)
qed

lemma openMessage_fails:
  "(\<exists>e. openMessage c groupKey = Inl e)
   \<longleftrightarrow> (\<exists>e. deriveKeyBytes groupKey = Inl e) \<or> c < 0 \<or> 2 ^ 256 \<le> c"
proof (cases "deriveKeyBytes groupKey")
  case (Inl e)
  then show ?thesis by (simp add: openMessage_def)
next
  case (Inr keyBytes)
  consider "c < 0" | "0 \<le> c" "c < 2 ^ 256" | "2 ^ 256 \<le> c" by linarith
  then show ?thesis
  proof cases
    case 1
    then show ?thesis by (simp add: openMessage_def Inr toBeHex_negative)
  next
    case 2
    then show ?thesis using openMessage_eval [OF Inr 2] Inr by simp
  next
    case 3
    from open_overrun [OF 3] obtain hex where
      "toBeHex c = Inr hex" "zeroPadValue hex KEY_BYTES = Inl BUFFER_OVERRUN" by blast
    then show ?thesis using 3 by (simp add: openMessage_def Inr)
  qed
qed

lemma envelope_open:
  assumes "length encoded \<le> MAX_MESSAGE_BYTES"
  shows "take (unat (uint8_at (envelope encoded) 0)) (drop 1 (envelope encoded)) = encoded"
proof -
  have "unat (of_nat (length encoded) :: byte) = length encoded"
    using assms by (intro unat_byte_of_nat) (simp add: MAX_MESSAGE_BYTES_def KEY_BYTES_def)
  then show ?thesis by (simp add: envelope_def uint8_at_def)
qed

lemma seal_then_open:
  assumes "deriveKeyBytes groupKey = Inr keyBytes"
    and "length (TextEncoder_encode message) \<le> MAX_MESSAGE_BYTES"
  shows "\<exists>c. sealMessage message groupKey = Inr c
           \<and> openMessage c groupKey = Inr (TextDecoder_decode (TextEncoder_encode message))"
proof -
  let ?e = "TextEncoder_encode message"
  let ?bs = "map2 (XOR) (envelope ?e) keyBytes"
  let ?c = "int (be_nat ?bs)"
  have k: "length keyBytes = KEY_BYTES" using assms(1) by (rule deriveKeyBytes_length)
  have l: "length ?bs = KEY_BYTES" using length_envelope [OF assms(2)] k by simp
  have s: "sealMessage message groupKey = Inr ?c"
    using assms(2) by (simp add: sealMessage_eval [OF assms(1)])
  have "be_nat ?bs < 256 ^ length ?bs" by (rule be_nat_bound)
  then have "be_nat ?bs < 2 ^ 256" unfolding l KEY_BYTES_def by simp
  then have r: "0 \<le> ?c" "?c < 2 ^ 256" by simp_all
  have b: "be_bytes KEY_BYTES (nat ?c) = ?bs"
    using be_bytes_be_nat [of ?bs] unfolding l by simp
  have x: "map2 (XOR) ?bs keyBytes = envelope ?e"
    by (rule map2_xor_twice) (simp add: length_envelope [OF assms(2)] k)
  have "openMessage ?c groupKey = Inr (TextDecoder_decode ?e)"
    unfolding openMessage_eval [OF assms(1) r] b x envelope_open [OF assms(2)] ..
  with s show ?thesis by blast
qed


subsection \<open>The key stream of a key string\<close>

lemma deriveKeyBytes_hex:
  assumes "startsWith groupKey (js ''0x'')" and "getBytes groupKey = Inr bytes"
  shows "deriveKeyBytes groupKey = Inr (be_bytes 32 (unat (keccak256 bytes)))"
  using assms by (simp add: deriveKeyBytes_def)

lemma deriveKeyBytes_number:
  assumes "\<not> startsWith groupKey (js ''0x'')" and "BigInt_string groupKey = Inr v" and "0 \<le> v"
  shows "deriveKeyBytes groupKey
         = Inr (be_bytes 32 (unat (keccak256 (be_bytes (byteLength (nat v)) (nat v)))))"
proof -
  from getBytes_toBeHex [OF assms(3)] obtain hex where
    "toBeHex v = Inr hex" "getBytes hex = Inr (be_bytes (byteLength (nat v)) (nat v))" by blast
  then show ?thesis using assms(1,2) by (simp add: deriveKeyBytes_def)
qed

lemma toBeHex_width_20:
  assumes "0 \<le> v" and "v < 2 ^ 160"
  shows "toBeHex_width v 20
         = Inr (js ''0x'' @ replicate (40 - length (toString16 (nat v))) (hexDigit 0)
                  @ toString16 (nat v))"
    and "length (toString16 (nat v)) \<le> 40"
proof -
  have "nat v < 2 ^ 160" using assms by (simp add: nat_less_iff)
  then have "nat v < 16 ^ 40" by simp
  then show l: "length (toString16 (nat v)) \<le> 40" by (simp add: length_toString16_le)
  then show "toBeHex_width v 20
         = Inr (js ''0x'' @ replicate (40 - length (toString16 (nat v))) (hexDigit 0)
                  @ toString16 (nat v))"
    using assms(1) by (simp add: toBeHex_width_def cu_zero Let_def)
qed

lemma normalizeGroupKey_bigint:
  assumes "0 \<le> v" and "v < 2 ^ 160"
  shows "\<exists>k. normalizeGroupKey (KeyBigint v) = Inr k \<and> startsWith k (js ''0x'')
           \<and> getBytes k = Inr (be_bytes 20 (nat v))"
proof -
  let ?ds = "replicate (40 - length (toString16 (nat v))) (hexDigit 0) @ toString16 (nat v)"
  note w = toBeHex_width_20 [OF assms]
  have e: "even (40 - length (toString16 (nat v)) + length (toString16 (nat v)))"
    using w(2) by simp
  have "hexPairs ?ds = Some (be_bytes 20 (nat v))"
    using hexPairs_zeros_toString16 [OF e] w(2) by simp
  then have "getBytes (js ''0x'' @ ?ds) = Inr (be_bytes 20 (nat v))"
    by (simp add: getBytes_def)
  then show ?thesis by (simp add: normalizeGroupKey_def w(1))
qed

lemma normalizeGroupKey_string:
  assumes "BigInt_string s = Inr v"
  shows "normalizeGroupKey (KeyString s) = normalizeGroupKey (KeyBigint v)"
  using assms by (simp add: normalizeGroupKey_def)

end
